theory Spec2Isabelle
  imports Complex_Main
begin

text \<open>
  DeliveryGenie ranks delivery orders by urgency. The class \<open>OrderPriorityCalculator\<close>
  scores one order; the endpoint \<open>POST\<close> of
  \<^verbatim>\<open>app/api/orders/calculate-priority/route.ts\<close> scores a batch, sorts it and numbers
  it. The dashboard \<^verbatim>\<open>app/page.tsx\<close> holds a second copy of the calculator with the
  same tables, the same steps and the same sum; it returns the computed fields spread
  into the order, without the breakdown. The definitions below follow \<^verbatim>\<open>route.ts\<close>,
  whose \<open>Order\<close> types \<open>category\<close> and \<open>customer_priority\<close> as arbitrary strings.
\<close>

section \<open>JavaScript numbers\<close>

text \<open>
  A JavaScript number is a finite value, one of the two infinities, or NaN. Finite values
  are modelled as exact rationals. On the scoring path this loses nothing: every component
  score times its weight is a multiple of 1/4 below 100, and the binary64 products, their
  sum, its hundredfold and the rounded quotient are all exact. The total value is the
  exact sum of the exact products: where binary64 rounds a product or the sum, or
  overflows, the code's \<open>total_value\<close> and the step taken at a threshold can differ from
  the model's. No theorem below depends on it: the general ones hold for whatever value
  the step function is given, and the orders evaluated have whole prices and quantities.
  The sign of zero is not modelled.
\<close>

datatype jsnum = NaN | NegInf | Fin rat | PosInf

fun js_neg :: "jsnum \<Rightarrow> jsnum" where
  "js_neg NaN = NaN"
| "js_neg NegInf = PosInf"
| "js_neg (Fin a) = Fin (- a)"
| "js_neg PosInf = NegInf"

fun js_add :: "jsnum \<Rightarrow> jsnum \<Rightarrow> jsnum" where
  "js_add NaN b = NaN"
| "js_add a NaN = NaN"
| "js_add (Fin a) (Fin b) = Fin (a + b)"
| "js_add (Fin a) b = b"
| "js_add a (Fin b) = a"
| "js_add PosInf PosInf = PosInf"
| "js_add NegInf NegInf = NegInf"
| "js_add PosInf NegInf = NaN"
| "js_add NegInf PosInf = NaN"

definition js_sub :: "jsnum \<Rightarrow> jsnum \<Rightarrow> jsnum" where
  "js_sub a b = js_add a (js_neg b)"

text \<open>The sign of a number that is not NaN: -1, 0 or 1.\<close>

fun js_sgn :: "jsnum \<Rightarrow> int" where
  "js_sgn NaN = 0"
| "js_sgn NegInf = - 1"
| "js_sgn (Fin a) = (if a < 0 then - 1 else if a = 0 then 0 else 1)"
| "js_sgn PosInf = 1"

definition inf_of_sign :: "int \<Rightarrow> jsnum" where
  "inf_of_sign s = (if s = 0 then NaN else if s < 0 then NegInf else PosInf)"

fun js_mul :: "jsnum \<Rightarrow> jsnum \<Rightarrow> jsnum" where
  "js_mul NaN b = NaN"
| "js_mul a NaN = NaN"
| "js_mul (Fin a) (Fin b) = Fin (a * b)"
| "js_mul a b = inf_of_sign (js_sgn a * js_sgn b)"

fun js_div :: "jsnum \<Rightarrow> jsnum \<Rightarrow> jsnum" where
  "js_div NaN b = NaN"
| "js_div a NaN = NaN"
| "js_div (Fin a) (Fin b) = (if b = 0 then inf_of_sign (js_sgn (Fin a)) else Fin (a / b))"
| "js_div (Fin a) b = Fin 0"
| "js_div a (Fin b) = inf_of_sign (js_sgn a * (if b < 0 then - 1 else 1))"
| "js_div a b = NaN"

text \<open>Comparisons: every comparison with NaN is false.\<close>

fun js_le :: "jsnum \<Rightarrow> jsnum \<Rightarrow> bool" where
  "js_le NaN b = False"
| "js_le a NaN = False"
| "js_le (Fin a) (Fin b) = (a \<le> b)"
| "js_le NegInf b = True"
| "js_le a PosInf = True"
| "js_le a b = False"

fun js_lt :: "jsnum \<Rightarrow> jsnum \<Rightarrow> bool" where
  "js_lt NaN b = False"
| "js_lt a NaN = False"
| "js_lt (Fin a) (Fin b) = (a < b)"
| "js_lt PosInf b = False"
| "js_lt a NegInf = False"
| "js_lt a b = True"

definition js_ge :: "jsnum \<Rightarrow> jsnum \<Rightarrow> bool" where
  "js_ge a b = js_le b a"

definition js_gt :: "jsnum \<Rightarrow> jsnum \<Rightarrow> bool" where
  "js_gt a b = js_lt b a"

text \<open>Strict equality \<^verbatim>\<open>===\<close> of two numbers: NaN equals nothing.\<close>

definition js_eq :: "jsnum \<Rightarrow> jsnum \<Rightarrow> bool" where
  "js_eq a b = (a \<noteq> NaN \<and> b \<noteq> NaN \<and> a = b)"

text \<open>Truthiness of a number, as \<^verbatim>\<open>||\<close> tests it: 0 and NaN are falsy.\<close>

definition truthy :: "jsnum \<Rightarrow> bool" where
  "truthy a = (a \<noteq> NaN \<and> a \<noteq> Fin 0)"

text \<open>
  \<^verbatim>\<open>Math.max(...xs)\<close> and \<^verbatim>\<open>Math.min(...xs)\<close>: the empty call gives
  \<open>-Infinity\<close> and \<open>+Infinity\<close>; a NaN argument makes the result NaN. These two
  definitions are the functions applied to their arguments; the spread that hands them an
  array is modelled further down, with the error it can raise.
\<close>

definition max2 :: "jsnum \<Rightarrow> jsnum \<Rightarrow> jsnum" where
  "max2 highest x = (if highest = NaN \<or> x = NaN then NaN else if js_gt x highest then x else highest)"

definition min2 :: "jsnum \<Rightarrow> jsnum \<Rightarrow> jsnum" where
  "min2 lowest x = (if lowest = NaN \<or> x = NaN then NaN else if js_lt x lowest then x else lowest)"

definition Math_max :: "jsnum list \<Rightarrow> jsnum" where
  "Math_max xs = foldl max2 NegInf xs"

definition Math_min :: "jsnum list \<Rightarrow> jsnum" where
  "Math_min xs = foldl min2 PosInf xs"

text \<open>\<^verbatim>\<open>Math.round\<close>: the nearest integer, a half rounded up.\<close>

definition Math_round :: "jsnum \<Rightarrow> jsnum" where
  "Math_round x = (case x of Fin a \<Rightarrow> Fin (of_int \<lfloor>a + 1 / 2\<rfloor>) | _ \<Rightarrow> x)"

section \<open>Objects used as lookup tables\<close>

text \<open>
  Both tables of the calculator are object literals read with \<^verbatim>\<open>table[key]\<close>. Such a
  read finds the literal's own properties first and then the properties every object
  inherits from \<^verbatim>\<open>Object.prototype\<close>, whose values are functions (for
  \<^verbatim>\<open>__proto__\<close>, the prototype object itself): truthy, not numbers, and without a
  \<^verbatim>\<open>score\<close> or \<^verbatim>\<open>label\<close> property.
\<close>

datatype 'a property = Own 'a | Inherited | Undefined

definition objectPrototypeKeys :: "string list" where
  "objectPrototypeKeys =
     [''constructor'', ''hasOwnProperty'', ''isPrototypeOf'', ''propertyIsEnumerable'',
      ''toLocaleString'', ''toString'', ''valueOf'', ''__proto__'',
      ''__defineGetter__'', ''__defineSetter__'', ''__lookupGetter__'', ''__lookupSetter__'']"

definition get_property :: "(string \<times> 'a) list \<Rightarrow> string \<Rightarrow> 'a property" where
  "get_property obj k =
     (case map_of obj k of
        Some v \<Rightarrow> Own v
      | None \<Rightarrow> if k \<in> set objectPrototypeKeys then Inherited else Undefined)"

text \<open>A value that is a number or some object that is not one; \<open>ToNumber\<close> of the latter is NaN.\<close>

datatype jsval = Number jsnum | Object

fun ToNumber :: "jsval \<Rightarrow> jsnum" where
  "ToNumber (Number n) = n"
| "ToNumber Object = NaN"

section \<open>Data model\<close>

text \<open>
  Labels are Thai text; a JavaScript string is a sequence of UTF-16 code units, and a label
  is modelled as the list of its code units.
\<close>

type_synonym utf16 = "nat list"

text \<open>
  The two timestamps of an order are strings that the calculator only hands to
  \<^verbatim>\<open>new Date(...)\<close>. The model keeps of such a string what \<open>Date\<close> parses from it:
  \<open>Some t\<close>, the milliseconds since the epoch, or \<open>None\<close> when it is not a date.
\<close>

type_synonym date_string = "int option"

record Product =
  product_id :: string
  name :: string
  category :: string
  price :: jsnum
  quantity :: jsnum
  expiration_hours :: jsnum

record Order =
  order_id :: string
  customer_name :: string
  customer_address :: string
  customer_priority :: string
  order_time :: date_string
  delivery_window_end :: date_string
  products :: "Product list"

record temp_entry =
  score :: jsnum
  label :: utf16

record Breakdown =
  bd_temperature :: jsnum
  bd_expiration :: jsnum
  bd_customer_priority :: jsnum
  bd_value :: jsnum
  bd_delivery_window :: jsnum
  bd_fragility :: jsnum

text \<open>The object \<^verbatim>\<open>calculateOrderPriority\<close> returns; \<open>None\<close> as a label is \<^verbatim>\<open>undefined\<close>.\<close>

record ScoredOrder =
  scored_order_id :: string
  priority_score :: jsnum
  priority_class :: string
  breakdown :: Breakdown
  highest_temp_requirement :: "utf16 option"
  total_value :: jsnum
  earliest_expiration :: jsnum
  minutes_until_deadline :: jsnum

datatype js_error = TypeError | RangeError

section \<open>Spreading an array into a call\<close>

text \<open>
  \<^verbatim>\<open>Math.max(...xs)\<close> passes every element of \<open>xs\<close> as an argument of one call. An
  engine accepts only so many arguments and throws a RangeError beyond that. The number
  is the engine's, not the repository's, and depends on its stack size; V8 with its
  default stack takes about 125000 arguments, and that number stands for the limit here.
\<close>

definition max_arguments :: nat where
  "max_arguments = 125000"

definition Math_max_spread :: "jsnum list \<Rightarrow> js_error + jsnum" where
  "Math_max_spread xs = (if max_arguments < length xs then Inl RangeError else Inr (Math_max xs))"

definition Math_min_spread :: "jsnum list \<Rightarrow> js_error + jsnum" where
  "Math_min_spread xs = (if max_arguments < length xs then Inl RangeError else Inr (Math_min xs))"

section \<open>The ambient clock and \<open>Date\<close>\<close>

text \<open>
  The one hidden input a JavaScript function can read is the wall clock. \<^verbatim>\<open>new Date()\<close>
  without an argument reads it; \<^verbatim>\<open>new Date(s)\<close> parses \<open>s\<close> and does not.
\<close>

record env =
  clock :: int

fun new_Date :: "env \<Rightarrow> date_string option \<Rightarrow> int option" where
  "new_Date e None = Some (clock e)"
| "new_Date e (Some s) = s"

fun getTime :: "int option \<Rightarrow> jsnum" where
  "getTime None = NaN"
| "getTime (Some t) = Fin (of_int t)"

section \<open>OrderPriorityCalculator\<close>

definition tempRequirements :: "(string \<times> temp_entry) list" where
  "tempRequirements =
     [(''hot_food'', \<lparr>score = Fin 100, label = [3619, 3657, 3629, 3609, 32, 54, 48, 45, 55, 48, 176, 67]\<rparr>),
      (''frozen'', \<lparr>score = Fin 90, label = [3649, 3594, 3656, 3649, 3586, 3655, 3591, 32, 45, 49, 56, 176, 67]\<rparr>),
      (''chilled'', \<lparr>score = Fin 75, label = [3648, 3618, 3655, 3609, 32, 48, 45, 52, 176, 67]\<rparr>),
      (''beverage'', \<lparr>score = Fin 40, label = [3648, 3618, 3655, 3609, 32, 49, 53, 45, 50, 48, 176, 67]\<rparr>),
      (''snack'', \<lparr>score = Fin 20, label = [3611, 3585, 3605, 3636]\<rparr>),
      (''daily_goods'', \<lparr>score = Fin 20, label = [3611, 3585, 3605, 3636]\<rparr>),
      (''medicine'', \<lparr>score = Fin 60, label = [3611, 3585, 3605, 3636, 32, 40, 3618, 3634, 41]\<rparr>)]"

definition customerPriorityScores :: "(string \<times> jsnum) list" where
  "customerPriorityScores =
     [(''urgent'', Fin 100), (''high'', Fin 75), (''standard'', Fin 50), (''economy'', Fin 25)]"

definition scoreExpiration :: "jsnum \<Rightarrow> jsnum" where
  "scoreExpiration hours =
     (if js_le hours (Fin 3) then Fin 100
      else if js_le hours (Fin 8) then Fin 90
      else if js_le hours (Fin 24) then Fin 70
      else if js_le hours (Fin 168) then Fin 50
      else Fin 30)"

definition scoreValue :: "jsnum \<Rightarrow> jsnum" where
  "scoreValue v =
     (if js_ge v (Fin 500) then Fin 100
      else if js_ge v (Fin 200) then Fin 80
      else if js_ge v (Fin 100) then Fin 60
      else if js_ge v (Fin 50) then Fin 40
      else Fin 20)"

definition scoreDeliveryWindow :: "jsnum \<Rightarrow> jsnum" where
  "scoreDeliveryWindow minutes =
     (if js_le minutes (Fin 15) then Fin 100
      else if js_le minutes (Fin 30) then Fin 90
      else if js_le minutes (Fin 60) then Fin 70
      else if js_le minutes (Fin 120) then Fin 50
      else Fin 30)"

definition classifyPriority :: "jsnum \<Rightarrow> string" where
  "classifyPriority s =
     (if js_ge s (Fin 75) then ''critical''
      else if js_ge s (Fin 60) then ''high''
      else if js_ge s (Fin 40) then ''medium''
      else ''low'')"

text \<open>\<^verbatim>\<open>this.tempRequirements[c]?.score\<close>: \<open>None\<close> is \<^verbatim>\<open>undefined\<close>.\<close>

fun entry_score :: "temp_entry property \<Rightarrow> jsnum option" where
  "entry_score (Own e) = Some (score e)"
| "entry_score Inherited = None"
| "entry_score Undefined = None"

text \<open>\<^verbatim>\<open>x || d\<close> for a number or \<^verbatim>\<open>undefined\<close> on the left.\<close>

fun or_default :: "jsnum option \<Rightarrow> jsnum \<Rightarrow> jsnum" where
  "or_default None d = d"
| "or_default (Some a) d = (if truthy a then a else d)"

text \<open>\<^verbatim>\<open>x === m\<close> for a number or \<^verbatim>\<open>undefined\<close> on the left and a number on the right.\<close>

fun strict_equals :: "jsnum option \<Rightarrow> jsnum \<Rightarrow> bool" where
  "strict_equals None m = False"
| "strict_equals (Some a) m = js_eq a m"

definition tempScores :: "Order \<Rightarrow> jsnum list" where
  "tempScores order =
     map (\<lambda>p. or_default (entry_score (get_property tempRequirements (category p))) (Fin 20))
       (products order)"

text \<open>The value of \<^verbatim>\<open>Math.max(...tempScores)\<close> when the call returns.\<close>

definition maxTempScore :: "Order \<Rightarrow> jsnum" where
  "maxTempScore order = Math_max (tempScores order)"

definition highestTempProduct :: "Order \<Rightarrow> Product option" where
  "highestTempProduct order =
     find (\<lambda>p. strict_equals (entry_score (get_property tempRequirements (category p)))
                  (maxTempScore order))
       (products order)"

text \<open>\<^verbatim>\<open>highestTempProduct?.category || 'snack'\<close>: the empty string is falsy.\<close>

definition tempRequirement :: "Order \<Rightarrow> temp_entry property" where
  "tempRequirement order =
     get_property tempRequirements
       (case highestTempProduct order of
          None \<Rightarrow> ''snack''
        | Some p \<Rightarrow> if category p = [] then ''snack'' else category p)"

text \<open>The value of \<^verbatim>\<open>Math.min(...expirations)\<close> when the call returns.\<close>

definition minExpiration :: "Order \<Rightarrow> jsnum" where
  "minExpiration order = Math_min (map expiration_hours (products order))"

definition expirationScore :: "Order \<Rightarrow> jsnum" where
  "expirationScore order = scoreExpiration (minExpiration order)"

text \<open>
  \<^verbatim>\<open>this.customerPriorityScores[order.customer_priority] || 50\<close>: an inherited property
  is truthy, so it is kept.
\<close>

definition customerScore :: "Order \<Rightarrow> jsval" where
  "customerScore order =
     (case get_property customerPriorityScores (customer_priority order) of
        Own n \<Rightarrow> Number (or_default (Some n) (Fin 50))
      | Inherited \<Rightarrow> Object
      | Undefined \<Rightarrow> Number (Fin 50))"

definition totalValue :: "Order \<Rightarrow> jsnum" where
  "totalValue order =
     foldl (\<lambda>sum p. js_add sum (js_mul (price p) (quantity p))) (Fin 0) (products order)"

definition valueScore :: "Order \<Rightarrow> jsnum" where
  "valueScore order = scoreValue (totalValue order)"

text \<open>The scoring time \<open>now\<close> is the order's own \<open>order_time\<close>.\<close>

definition minutesRemaining :: "env \<Rightarrow> Order \<Rightarrow> jsnum" where
  "minutesRemaining e order =
     (let now = new_Date e (Some (order_time order));
          deliveryEnd = new_Date e (Some (delivery_window_end order))
      in js_div (js_sub (getTime deliveryEnd) (getTime now)) (js_mul (Fin 1000) (Fin 60)))"

definition windowScore :: "env \<Rightarrow> Order \<Rightarrow> jsnum" where
  "windowScore e order = scoreDeliveryWindow (minutesRemaining e order)"

definition hasMedicine :: "Order \<Rightarrow> bool" where
  "hasMedicine order = list_ex (\<lambda>p. category p = ''medicine'') (products order)"

definition fragilityScore :: "Order \<Rightarrow> jsnum" where
  "fragilityScore order = (if hasMedicine order then Fin 100 else Fin 30)"

definition weights_temperature :: jsnum where "weights_temperature = Fin (30 / 100)"
definition weights_expiration :: jsnum where "weights_expiration = Fin (25 / 100)"
definition weights_customer_priority :: jsnum where "weights_customer_priority = Fin (15 / 100)"
definition weights_value :: jsnum where "weights_value = Fin (10 / 100)"
definition weights_delivery_window :: jsnum where "weights_delivery_window = Fin (15 / 100)"
definition weights_fragility :: jsnum where "weights_fragility = Fin (5 / 100)"

definition breakdown_of :: "env \<Rightarrow> Order \<Rightarrow> Breakdown" where
  "breakdown_of e order =
     \<lparr>bd_temperature = js_mul (maxTempScore order) weights_temperature,
      bd_expiration = js_mul (expirationScore order) weights_expiration,
      bd_customer_priority = js_mul (ToNumber (customerScore order)) weights_customer_priority,
      bd_value = js_mul (valueScore order) weights_value,
      bd_delivery_window = js_mul (windowScore e order) weights_delivery_window,
      bd_fragility = js_mul (fragilityScore order) weights_fragility\<rparr>"

text \<open>\<^verbatim>\<open>Object.values(breakdown)\<close> lists the values in the order the literal wrote them.\<close>

definition Object_values :: "Breakdown \<Rightarrow> jsnum list" where
  "Object_values b =
     [bd_temperature b, bd_expiration b, bd_customer_priority b, bd_value b,
      bd_delivery_window b, bd_fragility b]"

definition totalScore :: "env \<Rightarrow> Order \<Rightarrow> jsnum" where
  "totalScore e order = foldl js_add (Fin 0) (Object_values (breakdown_of e order))"

text \<open>
  The method can throw in three places: at the two spreads, with a RangeError, and at the
  read of \<^verbatim>\<open>tempRequirement.label\<close>, with a TypeError when \<open>tempRequirement\<close> is
  \<^verbatim>\<open>undefined\<close>. An inherited property has no \<open>label\<close>, and the read gives
  \<^verbatim>\<open>undefined\<close>.
\<close>

fun read_label :: "temp_entry property \<Rightarrow> js_error + utf16 option" where
  "read_label (Own t) = Inr (Some (label t))"
| "read_label Inherited = Inr None"
| "read_label Undefined = Inl TypeError"

definition calculateOrderPriority :: "env \<Rightarrow> Order \<Rightarrow> js_error + ScoredOrder" where
  "calculateOrderPriority e order =
     (case Math_max_spread (tempScores order) of
        Inl err \<Rightarrow> Inl err
      | Inr _ \<Rightarrow>
     (case Math_min_spread (map expiration_hours (products order)) of
        Inl err \<Rightarrow> Inl err
      | Inr _ \<Rightarrow>
     (case read_label (tempRequirement order) of
        Inl err \<Rightarrow> Inl err
      | Inr tempRequirement_label \<Rightarrow>
          Inr \<lparr>scored_order_id = order_id order,
               priority_score = js_div (Math_round (js_mul (totalScore e order) (Fin 100))) (Fin 100),
               priority_class = classifyPriority (totalScore e order),
               breakdown = breakdown_of e order,
               highest_temp_requirement = tempRequirement_label,
               total_value = totalValue order,
               earliest_expiration = minExpiration order,
               minutes_until_deadline = Math_round (minutesRemaining e order)\<rparr>)))"

section \<open>The batch endpoint\<close>

text \<open>
  \<^verbatim>\<open>Array.prototype.sort\<close> with a comparator: a NaN from the comparator counts as 0,
  a positive value puts the second argument first, and elements that compare as equal keep
  their order. For a comparator that orders the elements consistently this fixes the result,
  which the insertion sort below computes. For a comparator that does not (a NaN score
  among three or more results) ECMAScript leaves the order to the engine, and the
  insertion sort need not give the engine's; the lemmas on sortedness below assume scores
  without NaN, and the one batch evaluated with a NaN score has two orders.
\<close>

definition SortCompare :: "('a \<Rightarrow> 'a \<Rightarrow> jsnum) \<Rightarrow> 'a \<Rightarrow> 'a \<Rightarrow> jsnum" where
  "SortCompare comparefn x y = (let v = comparefn x y in if v = NaN then Fin 0 else v)"

fun insert_sorted :: "('a \<Rightarrow> 'a \<Rightarrow> jsnum) \<Rightarrow> 'a \<Rightarrow> 'a list \<Rightarrow> 'a list" where
  "insert_sorted comparefn x [] = [x]"
| "insert_sorted comparefn x (y # ys) =
     (if js_gt (SortCompare comparefn x y) (Fin 0) then y # insert_sorted comparefn x ys
      else x # y # ys)"

definition Array_sort :: "('a \<Rightarrow> 'a \<Rightarrow> jsnum) \<Rightarrow> 'a list \<Rightarrow> 'a list" where
  "Array_sort comparefn xs = foldr (insert_sorted comparefn) xs []"

text \<open>The comparator of the endpoint: \<^verbatim>\<open>(a, b) => b.priority_score - a.priority_score\<close>.\<close>

definition by_priority_score :: "ScoredOrder \<Rightarrow> ScoredOrder \<Rightarrow> jsnum" where
  "by_priority_score a b = js_sub (priority_score b) (priority_score a)"

text \<open>A result after \<^verbatim>\<open>forEach\<close> has given it its \<open>suggested_delivery_order\<close>.\<close>

record RankedOrder = ScoredOrder +
  suggested_delivery_order :: nat

definition add_delivery_order :: "ScoredOrder \<Rightarrow> nat \<Rightarrow> RankedOrder" where
  "add_delivery_order result index =
     \<lparr>scored_order_id = scored_order_id result,
      priority_score = priority_score result,
      priority_class = priority_class result,
      breakdown = breakdown result,
      highest_temp_requirement = highest_temp_requirement result,
      total_value = total_value result,
      earliest_expiration = earliest_expiration result,
      minutes_until_deadline = minutes_until_deadline result,
      suggested_delivery_order = index + 1\<rparr>"

definition forEach_rank :: "ScoredOrder list \<Rightarrow> RankedOrder list" where
  "forEach_rank sorted_results = map (\<lambda>(result, index). add_delivery_order result index)
                           (zip sorted_results [0 ..< length sorted_results])"

record Summary =
  critical :: nat
  high :: nat
  medium :: nat
  low :: nat
  avg_score :: jsnum

record SuccessBody =
  success :: bool
  total_orders :: nat
  orders :: "RankedOrder list"
  summary :: Summary

text \<open>
  The parsed request body, as far as the handler looks at it: its \<open>orders\<close> property is
  an array of orders or it is anything else (missing, null, a number, ...).
\<close>

datatype orders_property = NotAnArray | Array "Order list"

datatype response = ErrorResponse string nat | OkResponse SuccessBody

text \<open>\<^verbatim>\<open>orders.map(order => calculator.calculateOrderPriority(order))\<close>: the first throw ends it.\<close>

fun map_calculate :: "env \<Rightarrow> Order list \<Rightarrow> js_error + ScoredOrder list" where
  "map_calculate e [] = Inr []"
| "map_calculate e (order # rest) =
     (case calculateOrderPriority e order of
        Inl err \<Rightarrow> Inl err
      | Inr result \<Rightarrow>
          (case map_calculate e rest of
             Inl err \<Rightarrow> Inl err
           | Inr results \<Rightarrow> Inr (result # results)))"

definition count_class :: "string \<Rightarrow> RankedOrder list \<Rightarrow> nat" where
  "count_class c sorted_results = length (filter (\<lambda>r. priority_class r = c) sorted_results)"

definition POST :: "env \<Rightarrow> orders_property \<Rightarrow> response" where
  "POST e body_orders =
     (case body_orders of
        NotAnArray \<Rightarrow> ErrorResponse ''Invalid request: orders array required'' 400
      | Array os \<Rightarrow>
          (case map_calculate e os of
             Inl err \<Rightarrow> ErrorResponse ''Internal server error'' 500
           | Inr results \<Rightarrow>
               (let sorted_results = forEach_rank (Array_sort by_priority_score results)
                in OkResponse
                     \<lparr>success = True,
                      total_orders = length sorted_results,
                      orders = sorted_results,
                      summary =
                        \<lparr>critical = count_class ''critical'' sorted_results,
                         high = count_class ''high'' sorted_results,
                         medium = count_class ''medium'' sorted_results,
                         low = count_class ''low'' sorted_results,
                         avg_score =
                           js_div (foldl (\<lambda>sum r. js_add sum (priority_score r)) (Fin 0) sorted_results)
                             (Fin (of_nat (length sorted_results)))\<rparr>\<rparr>)))"

section \<open>The dashboard's ranking\<close>

text \<open>
  The dashboard sorts a copy of its results with the comparator
  \<^verbatim>\<open>(a, b) => (b.priority_score || 0) - (a.priority_score || 0)\<close> and numbers them
  with the same \<^verbatim>\<open>forEach\<close>.
\<close>

definition by_priority_score_or_0 :: "ScoredOrder \<Rightarrow> ScoredOrder \<Rightarrow> jsnum" where
  "by_priority_score_or_0 a b =
     js_sub (or_default (Some (priority_score b)) (Fin 0))
            (or_default (Some (priority_score a)) (Fin 0))"

definition dashboard_rank :: "ScoredOrder list \<Rightarrow> RankedOrder list" where
  "dashboard_rank calculated = forEach_rank (Array_sort by_priority_score_or_0 calculated)"

section \<open>The delivery window as the specification words it\<close>

text \<open>
  The specification gives the scorer a second argument \<open>now\<close>, the time of scoring, and
  measures the minutes that remain from it. These definitions follow its words; they are
  compared with \<open>windowScore\<close> below.
\<close>

definition spec_minutes_remaining :: "Order \<Rightarrow> int \<Rightarrow> jsnum" where
  "spec_minutes_remaining order now =
     js_div (js_sub (getTime (delivery_window_end order)) (Fin (of_int now))) (Fin 60000)"

definition spec_window_step :: "jsnum \<Rightarrow> jsnum" where
  "spec_window_step m =
     (if js_le m (Fin 15) then Fin 100
      else if js_le m (Fin 30) then Fin 90
      else if js_le m (Fin 60) then Fin 70
      else if js_le m (Fin 120) then Fin 50
      else Fin 30)"

definition spec_window_component :: "Order \<Rightarrow> int \<Rightarrow> jsnum" where
  "spec_window_component order now = spec_window_step (spec_minutes_remaining order now)"

section \<open>Evaluation lemmas\<close>

lemma Math_round_special [simp]:
  "Math_round NaN = NaN" "Math_round NegInf = NegInf" "Math_round PosInf = PosInf"
  by (simp_all add: Math_round_def)

lemma Math_round_of_int [simp]: "Math_round (Fin (of_int n)) = Fin (of_int n)"
proof -
  have "\<lfloor>(of_int n :: rat) + 1 / 2\<rfloor> = n" by linarith
  then show ?thesis by (simp add: Math_round_def)
qed

lemma Math_round_numeral [simp]: "Math_round (Fin (numeral k)) = Fin (numeral k)"
  using Math_round_of_int [of "numeral k"] by simp

lemmas table_defs = get_property_def tempRequirements_def customerPriorityScores_def
  objectPrototypeKeys_def truthy_def js_eq_def

lemmas step_defs = scoreExpiration_def scoreValue_def scoreDeliveryWindow_def classifyPriority_def
  js_ge_def js_gt_def

lemmas weight_defs = weights_temperature_def weights_expiration_def weights_customer_priority_def
  weights_value_def weights_delivery_window_def weights_fragility_def

lemmas component_defs = maxTempScore_def tempScores_def Math_max_def max2_def
  expirationScore_def minExpiration_def Math_min_def min2_def customerScore_def
  valueScore_def totalValue_def windowScore_def minutesRemaining_def js_sub_def
  fragilityScore_def hasMedicine_def

lemma js_add_NaN_right [simp]: "js_add a NaN = NaN"
  by (cases a) simp_all

lemma js_mul_NaN_right [simp]: "js_mul a NaN = NaN"
  by (cases a) simp_all

section \<open>Ranges of the component scores\<close>

lemma scoreExpiration_range:
  "\<exists>n. scoreExpiration h = Fin (of_int n) \<and> 30 \<le> n \<and> n \<le> 100"
proof -
  have "scoreExpiration h \<in> {Fin (of_int 100), Fin (of_int 90), Fin (of_int 70), Fin (of_int 50), Fin (of_int 30)}"
    by (simp add: scoreExpiration_def)
  then show ?thesis by fastforce
qed

lemma scoreValue_range:
  "\<exists>n. scoreValue v = Fin (of_int n) \<and> 20 \<le> n \<and> n \<le> 100"
proof -
  have "scoreValue v \<in> {Fin (of_int 100), Fin (of_int 80), Fin (of_int 60), Fin (of_int 40), Fin (of_int 20)}"
    by (simp add: scoreValue_def)
  then show ?thesis by fastforce
qed

lemma scoreDeliveryWindow_range:
  "\<exists>n. scoreDeliveryWindow m = Fin (of_int n) \<and> 30 \<le> n \<and> n \<le> 100"
proof -
  have "scoreDeliveryWindow m \<in> {Fin (of_int 100), Fin (of_int 90), Fin (of_int 70), Fin (of_int 50), Fin (of_int 30)}"
    by (simp add: scoreDeliveryWindow_def)
  then show ?thesis by fastforce
qed

lemma fragilityScore_range:
  "\<exists>n. fragilityScore order = Fin (of_int n) \<and> 30 \<le> n \<and> n \<le> 100"
proof -
  have "fragilityScore order \<in> {Fin (of_int 100), Fin (of_int 30)}"
    by (simp add: fragilityScore_def)
  then show ?thesis by fastforce
qed

text \<open>The own properties of the two tables.\<close>

lemma tempRequirements_scores:
  "map_of tempRequirements c = Some t \<Longrightarrow> \<exists>n. score t = Fin (of_int n) \<and> 20 \<le> n \<and> n \<le> 100"
proof -
  assume "map_of tempRequirements c = Some t"
  then have "score t \<in> {Fin (of_int 100), Fin (of_int 90), Fin (of_int 75), Fin (of_int 40), Fin (of_int 20), Fin (of_int 60)}"
    by (auto simp add: tempRequirements_def split: if_splits)
  then show ?thesis by fastforce
qed

lemma tempScore_range:
  "\<exists>n. or_default (entry_score (get_property tempRequirements c)) (Fin 20) = Fin (of_int n)
       \<and> 20 \<le> n \<and> n \<le> 100"
proof (cases "map_of tempRequirements c")
  case None
  then have "or_default (entry_score (get_property tempRequirements c)) (Fin 20) = Fin (of_int 20)"
    by (simp add: get_property_def)
  then show ?thesis by fastforce
next
  case (Some t)
  from tempRequirements_scores [OF Some] obtain n
    where n: "score t = Fin (of_int n)" "20 \<le> n" "n \<le> 100" by blast
  then have "or_default (entry_score (get_property tempRequirements c)) (Fin 20) = Fin (of_int n)"
    using Some by (simp add: get_property_def truthy_def)
  with n show ?thesis by blast
qed

lemma foldl_max2_range:
  assumes "\<forall>x\<in>set xs. \<exists>n. x = Fin (of_int n) \<and> lo \<le> n \<and> n \<le> hi"
    and "a = NegInf \<or> (\<exists>n. a = Fin (of_int n) \<and> lo \<le> n \<and> n \<le> hi)"
  shows "(foldl max2 a xs = NegInf \<and> a = NegInf \<and> xs = [])
         \<or> (\<exists>n. foldl max2 a xs = Fin (of_int n) \<and> lo \<le> n \<and> n \<le> (hi::int))"
  using assms
proof (induction xs arbitrary: a)
  case Nil
  then show ?case by auto
next
  case (Cons x xs)
  from Cons.prems obtain n where n: "x = Fin (of_int n)" "lo \<le> n" "n \<le> hi" by auto
  have "\<exists>m. max2 a x = Fin (of_int m) \<and> lo \<le> m \<and> m \<le> hi"
    using Cons.prems(2) n by (auto simp add: max2_def js_gt_def)
  then have "(foldl max2 (max2 a x) xs = NegInf \<and> max2 a x = NegInf \<and> xs = [])
         \<or> (\<exists>n. foldl max2 (max2 a x) xs = Fin (of_int n) \<and> lo \<le> n \<and> n \<le> hi)"
    using Cons.prems(1) by (intro Cons.IH) auto
  then show ?case using \<open>\<exists>m. max2 a x = Fin (of_int m) \<and> lo \<le> m \<and> m \<le> hi\<close> by auto
qed

lemma maxTempScore_empty: "products order = [] \<Longrightarrow> maxTempScore order = NegInf"
  by (simp add: maxTempScore_def tempScores_def Math_max_def)

lemma maxTempScore_range:
  assumes "products order \<noteq> []"
  shows "\<exists>n. maxTempScore order = Fin (of_int n) \<and> 20 \<le> n \<and> n \<le> 100"
proof -
  have "\<forall>x\<in>set (tempScores order). \<exists>n. x = Fin (of_int n) \<and> 20 \<le> n \<and> n \<le> 100"
    using tempScore_range by (auto simp add: tempScores_def)
  from foldl_max2_range [OF this, of NegInf] assms show ?thesis
    by (auto simp add: maxTempScore_def Math_max_def tempScores_def)
qed

text \<open>The label read never throws.\<close>

lemma tempRequirement_Own: "\<exists>t. tempRequirement order = Own t"
proof (cases "highestTempProduct order")
  case None
  then show ?thesis by (simp add: tempRequirement_def get_property_def tempRequirements_def)
next
  case (Some p)
  then have "strict_equals (entry_score (get_property tempRequirements (category p))) (maxTempScore order)"
    by (auto simp add: highestTempProduct_def find_Some_iff)
  then obtain t where t: "get_property tempRequirements (category p) = Own t"
    by (cases "get_property tempRequirements (category p)") auto
  show ?thesis
  proof (cases "category p = []")
    case True
    then show ?thesis using Some by (simp add: tempRequirement_def get_property_def tempRequirements_def)
  next
    case False
    then show ?thesis using Some t by (simp add: tempRequirement_def)
  qed
qed

lemma customerScore_own:
  assumes "customer_priority order \<notin> set objectPrototypeKeys"
  shows "\<exists>n. customerScore order = Number (Fin (of_int n)) \<and> 25 \<le> n \<and> n \<le> 100"
proof -
  have "customerScore order \<in> {Number (Fin (of_int 100)), Number (Fin (of_int 75)), Number (Fin (of_int 50)), Number (Fin (of_int 25))}"
    using assms by (simp add: customerScore_def get_property_def customerPriorityScores_def truthy_def)
  then show ?thesis by fastforce
qed

lemma customerScore_inherited:
  assumes "customer_priority order \<in> set objectPrototypeKeys"
  shows "customerScore order = Object"
  using assms by (auto simp add: customerScore_def get_property_def customerPriorityScores_def objectPrototypeKeys_def)

section \<open>The total score\<close>

lemma totalScore_unfold:
  "totalScore e order =
     js_add (js_add (js_add (js_add (js_add (js_add (Fin 0)
       (js_mul (maxTempScore order) weights_temperature))
       (js_mul (expirationScore order) weights_expiration))
       (js_mul (ToNumber (customerScore order)) weights_customer_priority))
       (js_mul (valueScore order) weights_value))
       (js_mul (windowScore e order) weights_delivery_window))
       (js_mul (fragilityScore order) weights_fragility)"
  by (simp add: totalScore_def Object_values_def breakdown_of_def)

lemma weighted_sum_hundredths:
  "rat_of_int a * (30 / 100) + rat_of_int b * (25 / 100) + rat_of_int c * (15 / 100)
     + rat_of_int d * (10 / 100) + rat_of_int f * (15 / 100) + rat_of_int g * (5 / 100)
   = rat_of_int (30 * a + 25 * b + 15 * c + 10 * d + 15 * f + 5 * g) / 100"
  by simp

lemma totalScore_inherited:
  assumes "customer_priority order \<in> set objectPrototypeKeys"
  shows "totalScore e order = NaN"
proof -
  have "ToNumber (customerScore order) = NaN"
    using customerScore_inherited [OF assms] by simp
  then show ?thesis
    unfolding totalScore_unfold weights_customer_priority_def by simp
qed

lemma totalScore_empty:
  assumes "products order = []" and "customer_priority order \<notin> set objectPrototypeKeys"
  shows "totalScore e order = NegInf"
proof -
  obtain b where b: "expirationScore order = Fin (of_int b)"
    using scoreExpiration_range unfolding expirationScore_def by blast
  obtain c where c: "customerScore order = Number (Fin (of_int c))"
    using customerScore_own [OF assms(2)] by blast
  obtain d where d: "valueScore order = Fin (of_int d)"
    using scoreValue_range unfolding valueScore_def by blast
  obtain f where f: "windowScore e order = Fin (of_int f)"
    using scoreDeliveryWindow_range unfolding windowScore_def by blast
  obtain g where g: "fragilityScore order = Fin (of_int g)"
    using fragilityScore_range by blast
  show ?thesis
    unfolding totalScore_unfold maxTempScore_empty [OF assms(1)] b c d f g weight_defs
    by (simp add: inf_of_sign_def)
qed

lemma totalScore_finite:
  assumes "products order \<noteq> []" and "customer_priority order \<notin> set objectPrototypeKeys"
  shows "\<exists>n. totalScore e order = Fin (of_int n / 100) \<and> 2525 \<le> n \<and> n \<le> 10000"
proof -
  obtain a where a: "maxTempScore order = Fin (of_int a)" "20 \<le> a" "a \<le> 100"
    using maxTempScore_range [OF assms(1)] by blast
  obtain b where b: "expirationScore order = Fin (of_int b)" "30 \<le> b" "b \<le> 100"
    using scoreExpiration_range unfolding expirationScore_def by blast
  obtain c where c: "customerScore order = Number (Fin (of_int c))" "25 \<le> c" "c \<le> 100"
    using customerScore_own [OF assms(2)] by blast
  obtain d where d: "valueScore order = Fin (of_int d)" "20 \<le> d" "d \<le> 100"
    using scoreValue_range unfolding valueScore_def by blast
  obtain f where f: "windowScore e order = Fin (of_int f)" "30 \<le> f" "f \<le> 100"
    using scoreDeliveryWindow_range unfolding windowScore_def by blast
  obtain g where g: "fragilityScore order = Fin (of_int g)" "30 \<le> g" "g \<le> 100"
    using fragilityScore_range by blast
  have "totalScore e order
      = Fin (rat_of_int a * (30 / 100) + rat_of_int b * (25 / 100) + rat_of_int c * (15 / 100)
             + rat_of_int d * (10 / 100) + rat_of_int f * (15 / 100) + rat_of_int g * (5 / 100))"
    unfolding totalScore_unfold a b c d f g weight_defs by simp
  then have "totalScore e order
      = Fin (rat_of_int (30 * a + 25 * b + 15 * c + 10 * d + 15 * f + 5 * g) / 100)"
    by (simp only: weighted_sum_hundredths)
  moreover have "2525 \<le> 30 * a + 25 * b + 15 * c + 10 * d + 15 * f + 5 * g"
    using a b c d f g by linarith
  moreover have "30 * a + 25 * b + 15 * c + 10 * d + 15 * f + 5 * g \<le> 10000"
    using a b c d f g by linarith
  ultimately show ?thesis by blast
qed

lemma totalScore_cases:
  "totalScore e order = NaN \<or> totalScore e order = NegInf
   \<or> (\<exists>n. totalScore e order = Fin (of_int n / 100))"
proof (cases "customer_priority order \<in> set objectPrototypeKeys")
  case True
  then show ?thesis using totalScore_inherited by blast
next
  case False
  show ?thesis
  proof (cases "products order = []")
    case True
    then show ?thesis using False totalScore_empty by blast
  next
    case nonempty: False
    from totalScore_finite [OF nonempty False, of e] show ?thesis by blast
  qed
qed

lemma round_totalScore:
  "js_div (Math_round (js_mul (totalScore e order) (Fin 100))) (Fin 100) = totalScore e order"
  using totalScore_cases [of e order]
  by (auto simp add: inf_of_sign_def simp del: of_int_add of_int_mult)

text \<open>
  The method throws on an order with more products than one call takes arguments. On
  every other order it returns, and the score it reports is the total.
\<close>

lemma spread_within_limit:
  assumes "length (products order) \<le> max_arguments"
  shows "Math_max_spread (tempScores order) = Inr (maxTempScore order)"
    and "Math_min_spread (map expiration_hours (products order)) = Inr (minExpiration order)"
  using assms
  by (simp_all add: Math_max_spread_def Math_min_spread_def tempScores_def maxTempScore_def
        minExpiration_def)

lemma calculateOrderPriority_throws:
  assumes "max_arguments < length (products order)"
  shows "calculateOrderPriority e order = Inl RangeError"
  using assms by (simp add: calculateOrderPriority_def Math_max_spread_def tempScores_def)

lemma calculateOrderPriority_returns:
  assumes "length (products order) \<le> max_arguments"
  shows "\<exists>t. calculateOrderPriority e order =
     Inr \<lparr>scored_order_id = order_id order,
          priority_score = totalScore e order,
          priority_class = classifyPriority (totalScore e order),
          breakdown = breakdown_of e order,
          highest_temp_requirement = Some (label t),
          total_value = totalValue order,
          earliest_expiration = minExpiration order,
          minutes_until_deadline = Math_round (minutesRemaining e order)\<rparr>
     \<and> tempRequirement order = Own t"
proof -
  obtain t where "tempRequirement order = Own t" using tempRequirement_Own by blast
  then show ?thesis
    using assms
    by (simp add: calculateOrderPriority_def Math_max_spread_def Math_min_spread_def
          tempScores_def round_totalScore)
qed

lemma calculateOrderPriority_within_limit:
  assumes "calculateOrderPriority e order = Inr r"
  shows "length (products order) \<le> max_arguments"
proof (rule ccontr)
  assume "\<not> length (products order) \<le> max_arguments"
  then have "calculateOrderPriority e order = Inl RangeError"
    by (intro calculateOrderPriority_throws) simp
  with assms show False by simp
qed

lemma calculateOrderPriority_result:
  assumes "calculateOrderPriority e order = Inr r"
  shows "\<exists>t. r =
     \<lparr>scored_order_id = order_id order,
      priority_score = totalScore e order,
      priority_class = classifyPriority (totalScore e order),
      breakdown = breakdown_of e order,
      highest_temp_requirement = Some (label t),
      total_value = totalValue order,
      earliest_expiration = minExpiration order,
      minutes_until_deadline = Math_round (minutesRemaining e order)\<rparr>
     \<and> tempRequirement order = Own t"
  using calculateOrderPriority_returns [OF calculateOrderPriority_within_limit [OF assms], of e]
    assms by auto

lemma priority_score_in_range:
  assumes "products order \<noteq> []" and "customer_priority order \<notin> set objectPrototypeKeys"
    and "length (products order) \<le> max_arguments"
  shows "\<exists>r q. calculateOrderPriority e order = Inr r \<and> priority_score r = Fin q
           \<and> 0 \<le> q \<and> q \<le> 100"
proof -
  obtain n where n: "totalScore e order = Fin (of_int n / 100)" "2525 \<le> n" "n \<le> 10000"
    using totalScore_finite [OF assms(1,2)] by blast
  obtain r where r: "calculateOrderPriority e order = Inr r"
      "priority_score r = totalScore e order"
    using calculateOrderPriority_returns [OF assms(3), of e] by auto
  have "0 \<le> rat_of_int n / 100" using n(2) by simp
  moreover have "rat_of_int n / 100 \<le> 100" using n(3) by simp
  moreover have "priority_score r = Fin (rat_of_int n / 100)" using r(2) n(1) by simp
  ultimately show ?thesis using r(1) by blast
qed

lemma priority_score_empty:
  assumes "products order = []" and "customer_priority order \<notin> set objectPrototypeKeys"
  shows "\<exists>r. calculateOrderPriority e order = Inr r \<and> priority_score r = NegInf"
proof -
  have "length (products order) \<le> max_arguments" using assms(1) by simp
  from calculateOrderPriority_returns [OF this, of e] totalScore_empty [OF assms, of e]
  show ?thesis by auto
qed

lemma priority_score_inherited:
  assumes "customer_priority order \<in> set objectPrototypeKeys"
    and "length (products order) \<le> max_arguments"
  shows "\<exists>r. calculateOrderPriority e order = Inr r \<and> priority_score r = NaN"
  using calculateOrderPriority_returns [OF assms(2), of e] totalScore_inherited [OF assms(1), of e]
  by auto

section \<open>Three orders evaluated\<close>

text \<open>
  ORD001 is the first order of the dashboard's sample data. ORD900 and ORD901 carry the
  customer priority \<^verbatim>\<open>constructor\<close>, ORD901 without a product.
\<close>

lemma eval_ORD001:
  "calculateOrderPriority \<lparr>clock = 0\<rparr>
     \<lparr>order_id = ''ORD001'', customer_name = ''Somchai'', customer_address = ''Eton 501'',
      customer_priority = ''urgent'', order_time = Some 0, delivery_window_end = Some 1500000,
      products = [\<lparr>product_id = ''P001'', name = ''rice box'', category = ''hot_food'',
                   price = Fin 65, quantity = Fin 1, expiration_hours = Fin 3\<rparr>,
                  \<lparr>product_id = ''P002'', name = ''water'', category = ''beverage'',
                   price = Fin 10, quantity = Fin 2, expiration_hours = Fin 8760\<rparr>]\<rparr>
   = Inr \<lparr>scored_order_id = ''ORD001'', priority_score = Fin 89, priority_class = ''critical'',
          breakdown = \<lparr>bd_temperature = Fin 30, bd_expiration = Fin 25,
                       bd_customer_priority = Fin 15, bd_value = Fin 4,
                       bd_delivery_window = Fin (27 / 2), bd_fragility = Fin (3 / 2)\<rparr>,
          highest_temp_requirement = Some [3619, 3657, 3629, 3609, 32, 54, 48, 45, 55, 48, 176, 67],
          total_value = Fin 85, earliest_expiration = Fin 3, minutes_until_deadline = Fin 25\<rparr>"
proof -
  define order where "order =
     \<lparr>order_id = ''ORD001'', customer_name = ''Somchai'', customer_address = ''Eton 501'',
      customer_priority = ''urgent'', order_time = Some 0, delivery_window_end = Some 1500000,
      products = [\<lparr>product_id = ''P001'', name = ''rice box'', category = ''hot_food'',
                   price = Fin 65, quantity = Fin 1, expiration_hours = Fin 3\<rparr>,
                  \<lparr>product_id = ''P002'', name = ''water'', category = ''beverage'',
                   price = Fin 10, quantity = Fin 2, expiration_hours = Fin 8760\<rparr>]\<rparr>"
  have temp: "maxTempScore order = Fin 100"
    by (simp add: order_def component_defs table_defs step_defs)
  have bd: "breakdown_of \<lparr>clock = 0\<rparr> order =
       \<lparr>bd_temperature = Fin 30, bd_expiration = Fin 25,
                       bd_customer_priority = Fin 15, bd_value = Fin 4,
                       bd_delivery_window = Fin (27 / 2), bd_fragility = Fin (3 / 2)\<rparr>"
    unfolding breakdown_of_def temp
    by (simp add: order_def component_defs table_defs step_defs weight_defs)
  have total: "totalScore \<lparr>clock = 0\<rparr> order = Fin 89"
    by (simp add: totalScore_def Object_values_def bd)
  have req: "tempRequirement order =
      Own \<lparr>score = Fin 100, label = [3619, 3657, 3629, 3609, 32, 54, 48, 45, 55, 48, 176, 67]\<rparr>"
    unfolding tempRequirement_def highestTempProduct_def temp
    by (simp add: order_def table_defs)
  have rest: "totalValue order = Fin 85" "minExpiration order = Fin 3"
     "minutesRemaining \<lparr>clock = 0\<rparr> order = Fin 25" "order_id order = ''ORD001''"
    by (simp_all add: order_def component_defs step_defs)
  have "length (products order) \<le> max_arguments"
    by (simp add: order_def max_arguments_def)
  note spread = spread_within_limit [OF this]
  show ?thesis
    unfolding order_def [symmetric]
    by (simp add: calculateOrderPriority_def spread req total bd rest step_defs)
qed

lemma eval_constructor:
  "calculateOrderPriority \<lparr>clock = 0\<rparr>
     \<lparr>order_id = ''ORD900'', customer_name = ''Somchai'', customer_address = ''Eton 501'',
      customer_priority = ''constructor'', order_time = Some 0, delivery_window_end = Some 1500000,
      products = [\<lparr>product_id = ''P001'', name = ''rice box'', category = ''hot_food'',
                   price = Fin 65, quantity = Fin 1, expiration_hours = Fin 3\<rparr>]\<rparr>
   = Inr \<lparr>scored_order_id = ''ORD900'', priority_score = NaN, priority_class = ''low'',
          breakdown = \<lparr>bd_temperature = Fin 30, bd_expiration = Fin 25,
                       bd_customer_priority = NaN, bd_value = Fin 4,
                       bd_delivery_window = Fin (27 / 2), bd_fragility = Fin (3 / 2)\<rparr>,
          highest_temp_requirement = Some [3619, 3657, 3629, 3609, 32, 54, 48, 45, 55, 48, 176, 67],
          total_value = Fin 65, earliest_expiration = Fin 3, minutes_until_deadline = Fin 25\<rparr>"
proof -
  define order where "order =
     \<lparr>order_id = ''ORD900'', customer_name = ''Somchai'', customer_address = ''Eton 501'',
      customer_priority = ''constructor'', order_time = Some 0, delivery_window_end = Some 1500000,
      products = [\<lparr>product_id = ''P001'', name = ''rice box'', category = ''hot_food'',
                   price = Fin 65, quantity = Fin 1, expiration_hours = Fin 3\<rparr>]\<rparr>"
  have temp: "maxTempScore order = Fin 100"
    by (simp add: order_def component_defs table_defs step_defs)
  have bd: "breakdown_of \<lparr>clock = 0\<rparr> order =
       \<lparr>bd_temperature = Fin 30, bd_expiration = Fin 25,
                       bd_customer_priority = NaN, bd_value = Fin 4,
                       bd_delivery_window = Fin (27 / 2), bd_fragility = Fin (3 / 2)\<rparr>"
    unfolding breakdown_of_def temp
    by (simp add: order_def component_defs table_defs step_defs weight_defs)
  have total: "totalScore \<lparr>clock = 0\<rparr> order = NaN"
    by (simp add: totalScore_def Object_values_def bd)
  have req: "tempRequirement order =
      Own \<lparr>score = Fin 100, label = [3619, 3657, 3629, 3609, 32, 54, 48, 45, 55, 48, 176, 67]\<rparr>"
    unfolding tempRequirement_def highestTempProduct_def temp
    by (simp add: order_def table_defs)
  have rest: "totalValue order = Fin 65" "minExpiration order = Fin 3"
     "minutesRemaining \<lparr>clock = 0\<rparr> order = Fin 25" "order_id order = ''ORD900''"
    by (simp_all add: order_def component_defs step_defs)
  have "length (products order) \<le> max_arguments"
    by (simp add: order_def max_arguments_def)
  note spread = spread_within_limit [OF this]
  show ?thesis
    unfolding order_def [symmetric]
    by (simp add: calculateOrderPriority_def spread req total bd rest step_defs)
qed

lemma eval_empty_constructor:
  "calculateOrderPriority \<lparr>clock = 0\<rparr>
     \<lparr>order_id = ''ORD901'', customer_name = ''Somchai'', customer_address = ''Eton 501'',
      customer_priority = ''constructor'', order_time = Some 0, delivery_window_end = Some 1500000,
      products = []\<rparr>
   = Inr \<lparr>scored_order_id = ''ORD901'', priority_score = NaN, priority_class = ''low'',
          breakdown = \<lparr>bd_temperature = NegInf, bd_expiration = Fin (15 / 2),
                       bd_customer_priority = NaN, bd_value = Fin 2,
                       bd_delivery_window = Fin (27 / 2), bd_fragility = Fin (3 / 2)\<rparr>,
          highest_temp_requirement = Some [3611, 3585, 3605, 3636],
          total_value = Fin 0, earliest_expiration = PosInf, minutes_until_deadline = Fin 25\<rparr>"
proof -
  define order where "order =
     \<lparr>order_id = ''ORD901'', customer_name = ''Somchai'', customer_address = ''Eton 501'',
      customer_priority = ''constructor'', order_time = Some 0, delivery_window_end = Some 1500000,
      products = []\<rparr>"
  have temp: "maxTempScore order = NegInf"
    by (simp add: order_def component_defs table_defs step_defs)
  have bd: "breakdown_of \<lparr>clock = 0\<rparr> order =
       \<lparr>bd_temperature = NegInf, bd_expiration = Fin (15 / 2),
                       bd_customer_priority = NaN, bd_value = Fin 2,
                       bd_delivery_window = Fin (27 / 2), bd_fragility = Fin (3 / 2)\<rparr>"
    unfolding breakdown_of_def temp
    by (simp add: order_def component_defs table_defs step_defs weight_defs inf_of_sign_def)
  have total: "totalScore \<lparr>clock = 0\<rparr> order = NaN"
    by (simp add: totalScore_def Object_values_def bd)
  have req: "tempRequirement order = Own \<lparr>score = Fin 20, label = [3611, 3585, 3605, 3636]\<rparr>"
    unfolding tempRequirement_def highestTempProduct_def temp
    by (simp add: order_def table_defs)
  have rest: "totalValue order = Fin 0" "minExpiration order = PosInf"
     "minutesRemaining \<lparr>clock = 0\<rparr> order = Fin 25" "order_id order = ''ORD901''"
    by (simp_all add: order_def component_defs step_defs)
  have "length (products order) \<le> max_arguments"
    by (simp add: order_def max_arguments_def)
  note spread = spread_within_limit [OF this]
  show ?thesis
    unfolding order_def [symmetric]
    by (simp add: calculateOrderPriority_def spread req total bd rest step_defs)
qed


section \<open>The scorer reads no clock\<close>

lemma minutesRemaining_env: "minutesRemaining e1 order = minutesRemaining e2 order"
  by (simp add: minutesRemaining_def)

lemma breakdown_of_env: "breakdown_of e1 order = breakdown_of e2 order"
  by (simp add: breakdown_of_def windowScore_def minutesRemaining_env [of e1 order e2])

lemma totalScore_env: "totalScore e1 order = totalScore e2 order"
  by (simp add: totalScore_def breakdown_of_env [of e1 order e2])

text \<open>
  C9. Scoring is deterministic: the result of \<open>calculateOrderPriority\<close> is a function of
  the order alone. Whatever the wall clock shows at the two invocations, the same order
  gives the same result in every field, and the same thrown error if it throws.
\<close>

theorem C9_deterministic:
  "calculateOrderPriority e1 order = calculateOrderPriority e2 order"
  unfolding calculateOrderPriority_def
  by (simp only: totalScore_env [of e1 order e2] breakdown_of_env [of e1 order e2]
        minutesRemaining_env [of e1 order e2])

section \<open>The delivery window\<close>

text \<open>
  C1, as the code has it. For every order the minutes that remain are counted from the
  order's own \<open>order_time\<close> to its \<open>delivery_window_end\<close>; the calculator takes no
  scoring time as an argument and reads no clock. That number of minutes is mapped by the
  step function (at most 15 gives 100, at most 30 gives 90, at most 60 gives 70, at most
  120 gives 50, anything else 30), and the delivery-window entry of the breakdown is the
  step's value times 0.15, in every result the calculator returns; it returns one for
  every order whose products fit into one call.
\<close>

theorem C1_window_from_order_time:
  "minutesRemaining e order =
     js_div (js_sub (getTime (delivery_window_end order)) (getTime (order_time order))) (Fin 60000)
   \<and> windowScore e order = spec_window_step (minutesRemaining e order)
   \<and> bd_delivery_window (breakdown_of e order) = js_mul (windowScore e order) (Fin (15 / 100))
   \<and> (\<forall>r. calculateOrderPriority e order = Inr r
          \<longrightarrow> bd_delivery_window (breakdown r) = js_mul (windowScore e order) (Fin (15 / 100)))
   \<and> (length (products order) \<le> max_arguments
          \<longrightarrow> (\<exists>r. calculateOrderPriority e order = Inr r))"
proof -
  have m: "minutesRemaining e order =
     js_div (js_sub (getTime (delivery_window_end order)) (getTime (order_time order))) (Fin 60000)"
    by (simp add: minutesRemaining_def)
  have w: "windowScore e order = spec_window_step (minutesRemaining e order)"
    by (simp add: windowScore_def scoreDeliveryWindow_def spec_window_step_def)
  have b: "bd_delivery_window (breakdown_of e order) = js_mul (windowScore e order) (Fin (15 / 100))"
    by (simp add: breakdown_of_def weights_delivery_window_def)
  have returned: "\<forall>r. calculateOrderPriority e order = Inr r
          \<longrightarrow> bd_delivery_window (breakdown r) = js_mul (windowScore e order) (Fin (15 / 100))"
  proof (intro allI impI)
    fix r assume "calculateOrderPriority e order = Inr r"
    from calculateOrderPriority_result [OF this] b
    show "bd_delivery_window (breakdown r) = js_mul (windowScore e order) (Fin (15 / 100))"
      by auto
  qed
  have returns: "length (products order) \<le> max_arguments
          \<longrightarrow> (\<exists>r. calculateOrderPriority e order = Inr r)"
    using calculateOrderPriority_returns [of order e] by auto
  from m w b returned returns show ?thesis by (intro conjI)
qed

text \<open>
  C1 at the order ORD001: 25 minutes from its \<open>order_time\<close> to the end of its window,
  step value 90, breakdown entry 13.5.
\<close>

theorem C1_window_from_order_time_witness:
  "length (products \<lparr>order_id = ''ORD001'', customer_name = ''Somchai'', customer_address = ''Eton 501'',
      customer_priority = ''urgent'', order_time = Some 0, delivery_window_end = Some 1500000,
      products = [\<lparr>product_id = ''P001'', name = ''rice box'', category = ''hot_food'',
                   price = Fin 65, quantity = Fin 1, expiration_hours = Fin 3\<rparr>,
                  \<lparr>product_id = ''P002'', name = ''water'', category = ''beverage'',
                   price = Fin 10, quantity = Fin 2, expiration_hours = Fin 8760\<rparr>]\<rparr>) \<le> max_arguments
   \<and> minutesRemaining \<lparr>clock = 0\<rparr>
     
     \<lparr>order_id = ''ORD001'', customer_name = ''Somchai'', customer_address = ''Eton 501'',
      customer_priority = ''urgent'', order_time = Some 0, delivery_window_end = Some 1500000,
      products = [\<lparr>product_id = ''P001'', name = ''rice box'', category = ''hot_food'',
                   price = Fin 65, quantity = Fin 1, expiration_hours = Fin 3\<rparr>,
                  \<lparr>product_id = ''P002'', name = ''water'', category = ''beverage'',
                   price = Fin 10, quantity = Fin 2, expiration_hours = Fin 8760\<rparr>]\<rparr> = Fin 25
   \<and> windowScore \<lparr>clock = 0\<rparr>
     
     \<lparr>order_id = ''ORD001'', customer_name = ''Somchai'', customer_address = ''Eton 501'',
      customer_priority = ''urgent'', order_time = Some 0, delivery_window_end = Some 1500000,
      products = [\<lparr>product_id = ''P001'', name = ''rice box'', category = ''hot_food'',
                   price = Fin 65, quantity = Fin 1, expiration_hours = Fin 3\<rparr>,
                  \<lparr>product_id = ''P002'', name = ''water'', category = ''beverage'',
                   price = Fin 10, quantity = Fin 2, expiration_hours = Fin 8760\<rparr>]\<rparr> = Fin 90
   \<and> (\<exists>r. calculateOrderPriority \<lparr>clock = 0\<rparr>
     
     \<lparr>order_id = ''ORD001'', customer_name = ''Somchai'', customer_address = ''Eton 501'',
      customer_priority = ''urgent'', order_time = Some 0, delivery_window_end = Some 1500000,
      products = [\<lparr>product_id = ''P001'', name = ''rice box'', category = ''hot_food'',
                   price = Fin 65, quantity = Fin 1, expiration_hours = Fin 3\<rparr>,
                  \<lparr>product_id = ''P002'', name = ''water'', category = ''beverage'',
                   price = Fin 10, quantity = Fin 2, expiration_hours = Fin 8760\<rparr>]\<rparr> = Inr r
        \<and> bd_delivery_window (breakdown r) = Fin (27 / 2))"
proof -
  have len: "length (products \<lparr>order_id = ''ORD001'', customer_name = ''Somchai'', customer_address = ''Eton 501'',
      customer_priority = ''urgent'', order_time = Some 0, delivery_window_end = Some 1500000,
      products = [\<lparr>product_id = ''P001'', name = ''rice box'', category = ''hot_food'',
                   price = Fin 65, quantity = Fin 1, expiration_hours = Fin 3\<rparr>,
                  \<lparr>product_id = ''P002'', name = ''water'', category = ''beverage'',
                   price = Fin 10, quantity = Fin 2, expiration_hours = Fin 8760\<rparr>]\<rparr>) \<le> max_arguments"
    by (simp add: max_arguments_def)
  note c1 = C1_window_from_order_time [of "\<lparr>clock = 0\<rparr>" "\<lparr>order_id = ''ORD001'', customer_name = ''Somchai'', customer_address = ''Eton 501'',
      customer_priority = ''urgent'', order_time = Some 0, delivery_window_end = Some 1500000,
      products = [\<lparr>product_id = ''P001'', name = ''rice box'', category = ''hot_food'',
                   price = Fin 65, quantity = Fin 1, expiration_hours = Fin 3\<rparr>,
                  \<lparr>product_id = ''P002'', name = ''water'', category = ''beverage'',
                   price = Fin 10, quantity = Fin 2, expiration_hours = Fin 8760\<rparr>]\<rparr>"]
  have m: "minutesRemaining \<lparr>clock = 0\<rparr>
     
     \<lparr>order_id = ''ORD001'', customer_name = ''Somchai'', customer_address = ''Eton 501'',
      customer_priority = ''urgent'', order_time = Some 0, delivery_window_end = Some 1500000,
      products = [\<lparr>product_id = ''P001'', name = ''rice box'', category = ''hot_food'',
                   price = Fin 65, quantity = Fin 1, expiration_hours = Fin 3\<rparr>,
                  \<lparr>product_id = ''P002'', name = ''water'', category = ''beverage'',
                   price = Fin 10, quantity = Fin 2, expiration_hours = Fin 8760\<rparr>]\<rparr> = Fin 25"
    using c1 [THEN conjunct1] by (simp add: js_sub_def)
  have w: "windowScore \<lparr>clock = 0\<rparr>
     
     \<lparr>order_id = ''ORD001'', customer_name = ''Somchai'', customer_address = ''Eton 501'',
      customer_priority = ''urgent'', order_time = Some 0, delivery_window_end = Some 1500000,
      products = [\<lparr>product_id = ''P001'', name = ''rice box'', category = ''hot_food'',
                   price = Fin 65, quantity = Fin 1, expiration_hours = Fin 3\<rparr>,
                  \<lparr>product_id = ''P002'', name = ''water'', category = ''beverage'',
                   price = Fin 10, quantity = Fin 2, expiration_hours = Fin 8760\<rparr>]\<rparr> = Fin 90"
    using c1 [THEN conjunct2, THEN conjunct1] by (simp add: m spec_window_step_def)
  from c1 [THEN conjunct2, THEN conjunct2, THEN conjunct2, THEN conjunct1, THEN spec, THEN mp,
      OF eval_ORD001]
  have "\<exists>r. calculateOrderPriority \<lparr>clock = 0\<rparr>
     
     \<lparr>order_id = ''ORD001'', customer_name = ''Somchai'', customer_address = ''Eton 501'',
      customer_priority = ''urgent'', order_time = Some 0, delivery_window_end = Some 1500000,
      products = [\<lparr>product_id = ''P001'', name = ''rice box'', category = ''hot_food'',
                   price = Fin 65, quantity = Fin 1, expiration_hours = Fin 3\<rparr>,
                  \<lparr>product_id = ''P002'', name = ''water'', category = ''beverage'',
                   price = Fin 10, quantity = Fin 2, expiration_hours = Fin 8760\<rparr>]\<rparr> = Inr r
        \<and> bd_delivery_window (breakdown r) = Fin (27 / 2)"
    by (intro exI conjI) (rule eval_ORD001, simp)
  with len m w show ?thesis by (intro conjI)
qed

text \<open>
  C1, as the claim states it, fails. An order placed at time 0 whose window ends 100
  minutes later is scored 90 minutes after it was placed: 10 minutes remain from the
  scoring time, which the specification maps to 100, and the calculator, counting the 100
  minutes from \<open>order_time\<close>, gives 50.
\<close>

theorem C1_counterexample:
  "windowScore \<lparr>clock = 5400000\<rparr>
     \<lparr>order_id = ''ORD005'', customer_name = ''Prayut'', customer_address = ''Rangsit 42'',
      customer_priority = ''standard'', order_time = Some 0, delivery_window_end = Some 6000000,
      products = [\<lparr>product_id = ''P009'', name = ''noodles'', category = ''snack'',
                   price = Fin 25, quantity = Fin 5, expiration_hours = Fin 4380\<rparr>]\<rparr>
   \<noteq> spec_window_component
     \<lparr>order_id = ''ORD005'', customer_name = ''Prayut'', customer_address = ''Rangsit 42'',
      customer_priority = ''standard'', order_time = Some 0, delivery_window_end = Some 6000000,
      products = [\<lparr>product_id = ''P009'', name = ''noodles'', category = ''snack'',
                   price = Fin 25, quantity = Fin 5, expiration_hours = Fin 4380\<rparr>]\<rparr>
     5400000"
  by (simp add: windowScore_def minutesRemaining_def scoreDeliveryWindow_def js_sub_def
        spec_window_component_def spec_window_step_def spec_minutes_remaining_def)

section \<open>Classification\<close>

lemma classifyPriority_bands:
  "(js_ge s (Fin 75) \<longrightarrow> classifyPriority s = ''critical'')
   \<and> (js_ge s (Fin 60) \<and> js_lt s (Fin 75) \<longrightarrow> classifyPriority s = ''high'')
   \<and> (js_ge s (Fin 40) \<and> js_lt s (Fin 60) \<longrightarrow> classifyPriority s = ''medium'')
   \<and> (js_lt s (Fin 40) \<longrightarrow> classifyPriority s = ''low'')"
  by (cases s) (simp_all add: classifyPriority_def js_ge_def)

text \<open>
  C4. The class of a score \<open>s\<close> is critical if \<open>s \<ge> 75\<close>, high if \<open>60 \<le> s < 75\<close>,
  medium if \<open>40 \<le> s < 60\<close> and low if \<open>s < 40\<close>; 75.00 is critical, 74.99 is high, 60.00
  is high and 39.99 is low. The class the calculator returns is the class of the rounded
  score it returns with it.
\<close>

theorem C4_classification:
  "(js_ge s (Fin 75) \<longrightarrow> classifyPriority s = ''critical'')
   \<and> (js_ge s (Fin 60) \<and> js_lt s (Fin 75) \<longrightarrow> classifyPriority s = ''high'')
   \<and> (js_ge s (Fin 40) \<and> js_lt s (Fin 60) \<longrightarrow> classifyPriority s = ''medium'')
   \<and> (js_lt s (Fin 40) \<longrightarrow> classifyPriority s = ''low'')
   \<and> classifyPriority (Fin 75) = ''critical''
   \<and> classifyPriority (Fin (7499 / 100)) = ''high''
   \<and> classifyPriority (Fin 60) = ''high''
   \<and> classifyPriority (Fin (3999 / 100)) = ''low''
   \<and> (calculateOrderPriority e order = Inr r
        \<longrightarrow> priority_class r = classifyPriority (priority_score r))"
proof -
  have boundary: "classifyPriority (Fin 75) = ''critical''"
      "classifyPriority (Fin (7499 / 100)) = ''high''"
      "classifyPriority (Fin 60) = ''high''"
      "classifyPriority (Fin (3999 / 100)) = ''low''"
    by (simp_all add: classifyPriority_def js_ge_def)
  have returned: "calculateOrderPriority e order = Inr r
        \<longrightarrow> priority_class r = classifyPriority (priority_score r)"
  proof
    assume "calculateOrderPriority e order = Inr r"
    from calculateOrderPriority_result [OF this]
    show "priority_class r = classifyPriority (priority_score r)" by auto
  qed
  from classifyPriority_bands [of s] boundary returned show ?thesis by blast
qed

text \<open>C4 at the scores 80, 70, 50 and 10 and at the order ORD001.\<close>

theorem C4_classification_witness:
  "js_ge (Fin 80) (Fin 75) \<and> classifyPriority (Fin 80) = ''critical''
   \<and> js_ge (Fin 70) (Fin 60) \<and> js_lt (Fin 70) (Fin 75) \<and> classifyPriority (Fin 70) = ''high''
   \<and> js_ge (Fin 50) (Fin 40) \<and> js_lt (Fin 50) (Fin 60) \<and> classifyPriority (Fin 50) = ''medium''
   \<and> js_lt (Fin 10) (Fin 40) \<and> classifyPriority (Fin 10) = ''low''
   \<and> (\<exists>r. calculateOrderPriority \<lparr>clock = 0\<rparr>
     \<lparr>order_id = ''ORD001'', customer_name = ''Somchai'', customer_address = ''Eton 501'',
      customer_priority = ''urgent'', order_time = Some 0, delivery_window_end = Some 1500000,
      products = [\<lparr>product_id = ''P001'', name = ''rice box'', category = ''hot_food'',
                   price = Fin 65, quantity = Fin 1, expiration_hours = Fin 3\<rparr>,
                  \<lparr>product_id = ''P002'', name = ''water'', category = ''beverage'',
                   price = Fin 10, quantity = Fin 2, expiration_hours = Fin 8760\<rparr>]\<rparr> = Inr r
        \<and> priority_score r = Fin 89
        \<and> priority_class r = classifyPriority (priority_score r))"
proof -
  have b: "js_ge (Fin 80) (Fin 75)" "js_ge (Fin 70) (Fin 60)" "js_lt (Fin 70) (Fin 75)"
    "js_ge (Fin 50) (Fin 40)" "js_lt (Fin 50) (Fin 60)" "js_lt (Fin 10) (Fin 40)"
    by (simp_all add: js_ge_def)
  note c1 = C4_classification [THEN conjunct1, THEN mp, OF b(1)]
  note c2 = C4_classification [THEN conjunct2, THEN conjunct1, THEN mp, OF conjI [OF b(2) b(3)]]
  note c3 = C4_classification [THEN conjunct2, THEN conjunct2, THEN conjunct1, THEN mp,
      OF conjI [OF b(4) b(5)]]
  note c4 = C4_classification [THEN conjunct2, THEN conjunct2, THEN conjunct2, THEN conjunct1,
      THEN mp, OF b(6)]
  note c5 = C4_classification [THEN conjunct2, THEN conjunct2, THEN conjunct2, THEN conjunct2,
      THEN conjunct2, THEN conjunct2, THEN conjunct2, THEN conjunct2, THEN mp, OF eval_ORD001]
  have "\<exists>r. calculateOrderPriority \<lparr>clock = 0\<rparr>
     \<lparr>order_id = ''ORD001'', customer_name = ''Somchai'', customer_address = ''Eton 501'',
      customer_priority = ''urgent'', order_time = Some 0, delivery_window_end = Some 1500000,
      products = [\<lparr>product_id = ''P001'', name = ''rice box'', category = ''hot_food'',
                   price = Fin 65, quantity = Fin 1, expiration_hours = Fin 3\<rparr>,
                  \<lparr>product_id = ''P002'', name = ''water'', category = ''beverage'',
                   price = Fin 10, quantity = Fin 2, expiration_hours = Fin 8760\<rparr>]\<rparr> = Inr r
        \<and> priority_score r = Fin 89
        \<and> priority_class r = classifyPriority (priority_score r)"
    by (intro exI conjI) (rule eval_ORD001, simp, rule c5)
  with b c1 c2 c3 c4 show ?thesis
    by simp
qed

section \<open>The two scenarios\<close>

text \<open>
  C6, as the code has it. One hot_food product of price 65, quantity 1, expiration 3
  hours, customer priority urgent, delivery window closing 25 minutes after the scoring
  time \<open>now\<close>. The calculator counts the minutes from the order's \<open>order_time\<close>
  \<open>t\<close>, not from \<open>now\<close>. If \<open>t\<close> is at most 5 minutes before \<open>now\<close> and less than
  10 minutes after it, as it is for an order scored at the moment it is placed, the
  component scores are 100, 100, 100, 40, 90 and 30, the priority score is 89 and the
  class is critical.
\<close>

theorem C6_scenario_hot_food:
  assumes "now - 5 * 60000 \<le> t"
    and "t < now + 10 * 60000"
  shows "let order = \<lparr>order_id = oid, customer_name = cn, customer_address = ca,
                 customer_priority = ''urgent'', order_time = Some t,
                 delivery_window_end = Some (now + 25 * 60000),
                 products = [\<lparr>product_id = pid, name = pn, category = ''hot_food'',
                              price = Fin 65, quantity = Fin 1, expiration_hours = Fin 3\<rparr>]\<rparr>
   in maxTempScore order = Fin 100 \<and> expirationScore order = Fin 100
      \<and> customerScore order = Number (Fin 100) \<and> valueScore order = Fin 40
      \<and> windowScore e order = Fin 90 \<and> fragilityScore order = Fin 30
      \<and> (\<exists>r. calculateOrderPriority e order = Inr r \<and> priority_score r = Fin 89
               \<and> priority_class r = ''critical'')"
proof -
  define order where "order = \<lparr>order_id = oid, customer_name = cn, customer_address = ca,
                 customer_priority = ''urgent'', order_time = Some t,
                 delivery_window_end = Some (now + 25 * 60000),
                 products = [\<lparr>product_id = pid, name = pn, category = ''hot_food'',
                              price = Fin 65, quantity = Fin 1, expiration_hours = Fin 3\<rparr>]\<rparr>"
  define d where "d = now + 25 * 60000 - t"
  have d: "900000 < d" "d \<le> 1800000"
    using assms by (simp_all add: d_def)
  have minutes: "minutesRemaining e order = Fin (rat_of_int d / 60000)"
    by (simp add: order_def d_def minutesRemaining_def js_sub_def)
  have "\<not> rat_of_int d / 60000 \<le> 15" "rat_of_int d / 60000 \<le> 30"
    using d by simp_all
  then have win: "windowScore e order = Fin 90"
    by (simp add: windowScore_def minutes scoreDeliveryWindow_def)
  have temp: "maxTempScore order = Fin 100"
    by (simp add: order_def component_defs table_defs step_defs)
  have expi: "expirationScore order = Fin 100"
    by (simp add: order_def component_defs table_defs step_defs)
  have cust: "customerScore order = Number (Fin 100)"
    by (simp add: order_def component_defs table_defs step_defs)
  have val: "valueScore order = Fin 40"
    by (simp add: order_def component_defs table_defs step_defs)
  have frag: "fragilityScore order = Fin 30"
    by (simp add: order_def component_defs table_defs step_defs)
  have total: "totalScore e order = Fin 89"
    by (simp add: totalScore_def Object_values_def breakdown_of_def temp expi cust val win frag
          weight_defs)
  have req: "tempRequirement order =
      Own \<lparr>score = Fin 100, label = [3619, 3657, 3629, 3609, 32, 54, 48, 45, 55, 48, 176, 67]\<rparr>"
    unfolding tempRequirement_def highestTempProduct_def temp
    by (simp add: order_def table_defs)
  have "length (products order) \<le> max_arguments"
    by (simp add: order_def max_arguments_def)
  note spread = spread_within_limit [OF this]
  have "\<exists>r. calculateOrderPriority e order = Inr r \<and> priority_score r = Fin 89
               \<and> priority_class r = ''critical''"
    by (simp add: calculateOrderPriority_def spread req total step_defs)
  with temp expi cust val win frag show ?thesis
    unfolding order_def Let_def by (intro conjI)
qed

text \<open>C6 at an order placed at minute 58 and scored at minute 60.\<close>

theorem C6_scenario_hot_food_witness:
  "(3600000 :: int) - 5 * 60000 \<le> 3480000 \<and> (3480000 :: int) < 3600000 + 10 * 60000
   \<and> windowScore \<lparr>clock = 3600000\<rparr>
        \<lparr>order_id = ''ORD010'', customer_name = ''Somchai'', customer_address = ''Eton 501'',
         customer_priority = ''urgent'', order_time = Some 3480000,
         delivery_window_end = Some (3600000 + 25 * 60000),
         products = [\<lparr>product_id = ''P001'', name = ''rice box'', category = ''hot_food'',
                      price = Fin 65, quantity = Fin 1, expiration_hours = Fin 3\<rparr>]\<rparr> = Fin 90
   \<and> (\<exists>r. calculateOrderPriority \<lparr>clock = 3600000\<rparr>
        \<lparr>order_id = ''ORD010'', customer_name = ''Somchai'', customer_address = ''Eton 501'',
         customer_priority = ''urgent'', order_time = Some 3480000,
         delivery_window_end = Some (3600000 + 25 * 60000),
         products = [\<lparr>product_id = ''P001'', name = ''rice box'', category = ''hot_food'',
                      price = Fin 65, quantity = Fin 1, expiration_hours = Fin 3\<rparr>]\<rparr> = Inr r
          \<and> priority_score r = Fin 89 \<and> priority_class r = ''critical'')"
proof -
  have h: "(3600000 :: int) - 5 * 60000 \<le> 3480000" "(3480000 :: int) < 3600000 + 10 * 60000"
    by simp_all
  from C6_scenario_hot_food [OF h, of "''ORD010''" "''Somchai''" "''Eton 501''" "''P001''"
      "''rice box''" "\<lparr>clock = 3600000\<rparr>"] h
  show ?thesis
    unfolding Let_def by (intro conjI) simp_all
qed

text \<open>
  C6, as the claim states it, fails. An order placed at minute 0 is scored at minute 60,
  and its window closes at minute 85, 25 minutes after the scoring time. The calculator
  counts 85 minutes from \<open>order_time\<close>: the window component is 50, not 90, and the
  priority score is 83, not 89.
\<close>

theorem C6_counterexample:
  "spec_minutes_remaining
     \<lparr>order_id = ''ORD011'', customer_name = ''Somchai'', customer_address = ''Eton 501'',
      customer_priority = ''urgent'', order_time = Some 0, delivery_window_end = Some 5100000,
      products = [\<lparr>product_id = ''P001'', name = ''rice box'', category = ''hot_food'',
                   price = Fin 65, quantity = Fin 1, expiration_hours = Fin 3\<rparr>]\<rparr>
     3600000 = Fin 25
   \<and> windowScore \<lparr>clock = 3600000\<rparr>
     \<lparr>order_id = ''ORD011'', customer_name = ''Somchai'', customer_address = ''Eton 501'',
      customer_priority = ''urgent'', order_time = Some 0, delivery_window_end = Some 5100000,
      products = [\<lparr>product_id = ''P001'', name = ''rice box'', category = ''hot_food'',
                   price = Fin 65, quantity = Fin 1, expiration_hours = Fin 3\<rparr>]\<rparr> = Fin 50
   \<and> calculateOrderPriority \<lparr>clock = 3600000\<rparr>
     \<lparr>order_id = ''ORD011'', customer_name = ''Somchai'', customer_address = ''Eton 501'',
      customer_priority = ''urgent'', order_time = Some 0, delivery_window_end = Some 5100000,
      products = [\<lparr>product_id = ''P001'', name = ''rice box'', category = ''hot_food'',
                   price = Fin 65, quantity = Fin 1, expiration_hours = Fin 3\<rparr>]\<rparr>
     = Inr \<lparr>scored_order_id = ''ORD011'', priority_score = Fin 83, priority_class = ''critical'',
          breakdown = \<lparr>bd_temperature = Fin 30, bd_expiration = Fin 25,
                       bd_customer_priority = Fin 15, bd_value = Fin 4,
                       bd_delivery_window = Fin (15 / 2), bd_fragility = Fin (3 / 2)\<rparr>,
          highest_temp_requirement = Some [3619, 3657, 3629, 3609, 32, 54, 48, 45, 55, 48, 176, 67],
          total_value = Fin 65, earliest_expiration = Fin 3, minutes_until_deadline = Fin 85\<rparr>"
proof -
  define order where "order =
     \<lparr>order_id = ''ORD011'', customer_name = ''Somchai'', customer_address = ''Eton 501'',
      customer_priority = ''urgent'', order_time = Some 0, delivery_window_end = Some 5100000,
      products = [\<lparr>product_id = ''P001'', name = ''rice box'', category = ''hot_food'',
                   price = Fin 65, quantity = Fin 1, expiration_hours = Fin 3\<rparr>]\<rparr>"
  have spec: "spec_minutes_remaining order 3600000 = Fin 25"
    by (simp add: order_def spec_minutes_remaining_def js_sub_def)
  have win: "windowScore \<lparr>clock = 3600000\<rparr> order = Fin 50"
    by (simp add: order_def component_defs step_defs)
  have temp: "maxTempScore order = Fin 100"
    by (simp add: order_def component_defs table_defs step_defs)
  have bd: "breakdown_of \<lparr>clock = 3600000\<rparr> order =
       \<lparr>bd_temperature = Fin 30, bd_expiration = Fin 25,
                       bd_customer_priority = Fin 15, bd_value = Fin 4,
                       bd_delivery_window = Fin (15 / 2), bd_fragility = Fin (3 / 2)\<rparr>"
    unfolding breakdown_of_def temp win
    by (simp add: order_def component_defs table_defs step_defs weight_defs)
  have total: "totalScore \<lparr>clock = 3600000\<rparr> order = Fin 83"
    by (simp add: totalScore_def Object_values_def bd)
  have req: "tempRequirement order =
      Own \<lparr>score = Fin 100, label = [3619, 3657, 3629, 3609, 32, 54, 48, 45, 55, 48, 176, 67]\<rparr>"
    unfolding tempRequirement_def highestTempProduct_def temp
    by (simp add: order_def table_defs)
  have rest: "totalValue order = Fin 65" "minExpiration order = Fin 3"
     "minutesRemaining \<lparr>clock = 3600000\<rparr> order = Fin 85" "order_id order = ''ORD011''"
    by (simp_all add: order_def component_defs step_defs)
  have "length (products order) \<le> max_arguments"
    by (simp add: order_def max_arguments_def)
  note spread = spread_within_limit [OF this]
  have "calculateOrderPriority \<lparr>clock = 3600000\<rparr> order
     = Inr \<lparr>scored_order_id = ''ORD011'', priority_score = Fin 83, priority_class = ''critical'',
          breakdown = \<lparr>bd_temperature = Fin 30, bd_expiration = Fin 25,
                       bd_customer_priority = Fin 15, bd_value = Fin 4,
                       bd_delivery_window = Fin (15 / 2), bd_fragility = Fin (3 / 2)\<rparr>,
          highest_temp_requirement = Some [3619, 3657, 3629, 3609, 32, 54, 48, 45, 55, 48, 176, 67],
          total_value = Fin 65, earliest_expiration = Fin 3, minutes_until_deadline = Fin 85\<rparr>"
    by (simp add: calculateOrderPriority_def spread req total bd rest step_defs)
  with spec win show ?thesis
    unfolding order_def by (intro conjI)
qed

text \<open>
  C7, as the code has it. One medicine product of price 120, quantity 1, expiration 17520
  hours, customer priority standard, delivery window closing 200 minutes after the scoring
  time \<open>now\<close>. The calculator counts the minutes from the order's \<open>order_time\<close> \<open>t\<close>.
  If \<open>t\<close> is less than 80 minutes after \<open>now\<close>, as it is for every order placed at or
  before the scoring time, the component scores are 60, 30, 50, 60, 30 and 100, the
  priority score is 48.5 and the class is medium.
\<close>

theorem C7_scenario_medicine:
  assumes "t < now + 80 * 60000"
  shows "let order = \<lparr>order_id = oid, customer_name = cn, customer_address = ca,
                 customer_priority = ''standard'', order_time = Some t,
                 delivery_window_end = Some (now + 200 * 60000),
                 products = [\<lparr>product_id = pid, name = pn, category = ''medicine'',
                              price = Fin 120, quantity = Fin 1, expiration_hours = Fin 17520\<rparr>]\<rparr>
   in maxTempScore order = Fin 60 \<and> expirationScore order = Fin 30
      \<and> customerScore order = Number (Fin 50) \<and> valueScore order = Fin 60
      \<and> windowScore e order = Fin 30 \<and> fragilityScore order = Fin 100
      \<and> (\<exists>r. calculateOrderPriority e order = Inr r \<and> priority_score r = Fin (485 / 10)
               \<and> priority_class r = ''medium'')"
proof -
  define order where "order = \<lparr>order_id = oid, customer_name = cn, customer_address = ca,
                 customer_priority = ''standard'', order_time = Some t,
                 delivery_window_end = Some (now + 200 * 60000),
                 products = [\<lparr>product_id = pid, name = pn, category = ''medicine'',
                              price = Fin 120, quantity = Fin 1, expiration_hours = Fin 17520\<rparr>]\<rparr>"
  define d where "d = now + 200 * 60000 - t"
  have d: "7200000 < d"
    using assms by (simp_all add: d_def)
  have minutes: "minutesRemaining e order = Fin (rat_of_int d / 60000)"
    by (simp add: order_def d_def minutesRemaining_def js_sub_def)
  have "\<not> rat_of_int d / 60000 \<le> 15" "\<not> rat_of_int d / 60000 \<le> 30"
    "\<not> rat_of_int d / 60000 \<le> 60" "\<not> rat_of_int d / 60000 \<le> 120"
    using d by simp_all
  then have win: "windowScore e order = Fin 30"
    by (simp add: windowScore_def minutes scoreDeliveryWindow_def)
  have temp: "maxTempScore order = Fin 60"
    by (simp add: order_def component_defs table_defs step_defs)
  have expi: "expirationScore order = Fin 30"
    by (simp add: order_def component_defs table_defs step_defs)
  have cust: "customerScore order = Number (Fin 50)"
    by (simp add: order_def component_defs table_defs step_defs)
  have val: "valueScore order = Fin 60"
    by (simp add: order_def component_defs table_defs step_defs)
  have frag: "fragilityScore order = Fin 100"
    by (simp add: order_def component_defs table_defs step_defs)
  have total: "totalScore e order = Fin (97 / 2)"
    by (simp add: totalScore_def Object_values_def breakdown_of_def temp expi cust val win frag
          weight_defs)
  have req: "tempRequirement order =
      Own \<lparr>score = Fin 60, label = [3611, 3585, 3605, 3636, 32, 40, 3618, 3634, 41]\<rparr>"
    unfolding tempRequirement_def highestTempProduct_def temp
    by (simp add: order_def table_defs)
  have "length (products order) \<le> max_arguments"
    by (simp add: order_def max_arguments_def)
  note spread = spread_within_limit [OF this]
  have "\<exists>r. calculateOrderPriority e order = Inr r \<and> priority_score r = Fin (485 / 10)
               \<and> priority_class r = ''medium''"
    by (simp add: calculateOrderPriority_def spread req total step_defs)
  with temp expi cust val win frag show ?thesis
    unfolding order_def Let_def by (intro conjI)
qed

text \<open>C7 at an order placed at minute 0 and scored at minute 60.\<close>

theorem C7_scenario_medicine_witness:
  "(0 :: int) < 3600000 + 80 * 60000
   \<and> windowScore \<lparr>clock = 3600000\<rparr>
        \<lparr>order_id = ''ORD020'', customer_name = ''Nida'', customer_address = ''Hospital'',
         customer_priority = ''standard'', order_time = Some 0,
         delivery_window_end = Some (3600000 + 200 * 60000),
         products = [\<lparr>product_id = ''P007'', name = ''paracetamol'', category = ''medicine'',
                      price = Fin 120, quantity = Fin 1, expiration_hours = Fin 17520\<rparr>]\<rparr> = Fin 30
   \<and> (\<exists>r. calculateOrderPriority \<lparr>clock = 3600000\<rparr>
        \<lparr>order_id = ''ORD020'', customer_name = ''Nida'', customer_address = ''Hospital'',
         customer_priority = ''standard'', order_time = Some 0,
         delivery_window_end = Some (3600000 + 200 * 60000),
         products = [\<lparr>product_id = ''P007'', name = ''paracetamol'', category = ''medicine'',
                      price = Fin 120, quantity = Fin 1, expiration_hours = Fin 17520\<rparr>]\<rparr> = Inr r
          \<and> priority_score r = Fin (485 / 10) \<and> priority_class r = ''medium'')"
proof -
  have h: "(0 :: int) < 3600000 + 80 * 60000"
    by simp
  from C7_scenario_medicine [OF h, of "''ORD020''" "''Nida''" "''Hospital''" "''P007''"
      "''paracetamol''" "\<lparr>clock = 3600000\<rparr>"] h
  show ?thesis
    unfolding Let_def by (intro conjI) simp_all
qed

text \<open>
  C7, as the claim states it, fails. An order scored at minute 0 carries an \<open>order_time\<close>
  100 minutes later, and its window closes at minute 200, 200 minutes after the scoring
  time. The calculator counts 100 minutes from \<open>order_time\<close>: the window component is
  50, not 30, and the priority score is 51.5, not 48.5.
\<close>

theorem C7_counterexample:
  "spec_minutes_remaining
     \<lparr>order_id = ''ORD021'', customer_name = ''Nida'', customer_address = ''Hospital'',
      customer_priority = ''standard'', order_time = Some 6000000,
      delivery_window_end = Some 12000000,
      products = [\<lparr>product_id = ''P007'', name = ''paracetamol'', category = ''medicine'',
                   price = Fin 120, quantity = Fin 1, expiration_hours = Fin 17520\<rparr>]\<rparr>
     0 = Fin 200
   \<and> windowScore \<lparr>clock = 0\<rparr>
     \<lparr>order_id = ''ORD021'', customer_name = ''Nida'', customer_address = ''Hospital'',
      customer_priority = ''standard'', order_time = Some 6000000,
      delivery_window_end = Some 12000000,
      products = [\<lparr>product_id = ''P007'', name = ''paracetamol'', category = ''medicine'',
                   price = Fin 120, quantity = Fin 1, expiration_hours = Fin 17520\<rparr>]\<rparr> = Fin 50
   \<and> calculateOrderPriority \<lparr>clock = 0\<rparr>
     \<lparr>order_id = ''ORD021'', customer_name = ''Nida'', customer_address = ''Hospital'',
      customer_priority = ''standard'', order_time = Some 6000000,
      delivery_window_end = Some 12000000,
      products = [\<lparr>product_id = ''P007'', name = ''paracetamol'', category = ''medicine'',
                   price = Fin 120, quantity = Fin 1, expiration_hours = Fin 17520\<rparr>]\<rparr>
     = Inr \<lparr>scored_order_id = ''ORD021'', priority_score = Fin (515 / 10),
          priority_class = ''medium'',
          breakdown = \<lparr>bd_temperature = Fin 18, bd_expiration = Fin (15 / 2),
                       bd_customer_priority = Fin (15 / 2), bd_value = Fin 6,
                       bd_delivery_window = Fin (15 / 2), bd_fragility = Fin 5\<rparr>,
          highest_temp_requirement = Some [3611, 3585, 3605, 3636, 32, 40, 3618, 3634, 41],
          total_value = Fin 120, earliest_expiration = Fin 17520,
          minutes_until_deadline = Fin 100\<rparr>"
proof -
  define order where "order =
     \<lparr>order_id = ''ORD021'', customer_name = ''Nida'', customer_address = ''Hospital'',
      customer_priority = ''standard'', order_time = Some 6000000,
      delivery_window_end = Some 12000000,
      products = [\<lparr>product_id = ''P007'', name = ''paracetamol'', category = ''medicine'',
                   price = Fin 120, quantity = Fin 1, expiration_hours = Fin 17520\<rparr>]\<rparr>"
  have spec: "spec_minutes_remaining order 0 = Fin 200"
    by (simp add: order_def spec_minutes_remaining_def js_sub_def)
  have win: "windowScore \<lparr>clock = 0\<rparr> order = Fin 50"
    by (simp add: order_def component_defs step_defs)
  have temp: "maxTempScore order = Fin 60"
    by (simp add: order_def component_defs table_defs step_defs)
  have bd: "breakdown_of \<lparr>clock = 0\<rparr> order =
       \<lparr>bd_temperature = Fin 18, bd_expiration = Fin (15 / 2),
                       bd_customer_priority = Fin (15 / 2), bd_value = Fin 6,
                       bd_delivery_window = Fin (15 / 2), bd_fragility = Fin 5\<rparr>"
    unfolding breakdown_of_def temp win
    by (simp add: order_def component_defs table_defs step_defs weight_defs)
  have total: "totalScore \<lparr>clock = 0\<rparr> order = Fin (103 / 2)"
    by (simp add: totalScore_def Object_values_def bd)
  have req: "tempRequirement order =
      Own \<lparr>score = Fin 60, label = [3611, 3585, 3605, 3636, 32, 40, 3618, 3634, 41]\<rparr>"
    unfolding tempRequirement_def highestTempProduct_def temp
    by (simp add: order_def table_defs)
  have rest: "totalValue order = Fin 120" "minExpiration order = Fin 17520"
     "minutesRemaining \<lparr>clock = 0\<rparr> order = Fin 100" "order_id order = ''ORD021''"
    by (simp_all add: order_def component_defs step_defs)
  have "length (products order) \<le> max_arguments"
    by (simp add: order_def max_arguments_def)
  note spread = spread_within_limit [OF this]
  have "calculateOrderPriority \<lparr>clock = 0\<rparr> order
     = Inr \<lparr>scored_order_id = ''ORD021'', priority_score = Fin (515 / 10),
          priority_class = ''medium'',
          breakdown = \<lparr>bd_temperature = Fin 18, bd_expiration = Fin (15 / 2),
                       bd_customer_priority = Fin (15 / 2), bd_value = Fin 6,
                       bd_delivery_window = Fin (15 / 2), bd_fragility = Fin 5\<rparr>,
          highest_temp_requirement = Some [3611, 3585, 3605, 3636, 32, 40, 3618, 3634, 41],
          total_value = Fin 120, earliest_expiration = Fin 17520,
          minutes_until_deadline = Fin 100\<rparr>"
    by (simp add: calculateOrderPriority_def spread req total bd rest step_defs)
  with spec win show ?thesis
    unfolding order_def by (intro conjI)
qed

section \<open>Unrecognized categories\<close>

lemma foldl_max2_replicate: "foldl max2 (Fin a) (replicate n (Fin a)) = Fin a"
  by (induction n) (simp_all add: max2_def js_gt_def)

lemma max2_NegInf_Fin: "max2 NegInf (Fin a) = Fin a"
  by (simp add: max2_def js_gt_def)

lemma Math_max_replicate_Suc: "Math_max (replicate (Suc k) (Fin a)) = Fin a"
  by (simp only: Math_max_def replicate_Suc foldl_Cons max2_NegInf_Fin foldl_max2_replicate)

lemma unrecognized_entry_score:
  assumes "c \<notin> {''hot_food'', ''frozen'', ''chilled'', ''beverage'', ''snack'', ''daily_goods'', ''medicine''}"
  shows "entry_score (get_property tempRequirements c) = None"
proof -
  have "map_of tempRequirements c = None" using assms by (simp add: tempRequirements_def)
  then show ?thesis by (simp add: get_property_def)
qed

text \<open>
  C8, as the code has it. For every order with at least one product and no more products
  than one call takes arguments, all of whose products have a category outside the seven
  of the table: the calculator returns, every product's temperature score is the fallback
  20, and the label reported as \<open>highest_temp_requirement\<close> is the label of the table's
  snack entry.
\<close>

theorem C8_unrecognized_categories:
  assumes "products order \<noteq> []"
    and "\<forall>p\<in>set (products order). category p \<notin>
           {''hot_food'', ''frozen'', ''chilled'', ''beverage'', ''snack'', ''daily_goods'', ''medicine''}"
    and "length (products order) \<le> max_arguments"
  shows "tempScores order = replicate (length (products order)) (Fin 20)
         \<and> maxTempScore order = Fin 20
         \<and> (\<exists>r t. calculateOrderPriority e order = Inr r
                  \<and> map_of tempRequirements ''snack'' = Some t
                  \<and> highest_temp_requirement r = Some (label t))"
proof -
  have none: "\<forall>p\<in>set (products order). entry_score (get_property tempRequirements (category p)) = None"
    using assms(2) unrecognized_entry_score by blast
  then have scores: "tempScores order = replicate (length (products order)) (Fin 20)"
    by (simp add: tempScores_def map_replicate_const [symmetric])
  obtain k where "length (products order) = Suc k"
    using assms(1) by (cases "products order") auto
  then have maxT: "maxTempScore order = Fin 20"
    by (simp only: maxTempScore_def scores Math_max_replicate_Suc)
  have "highestTempProduct order = None"
    using none by (simp add: highestTempProduct_def find_None_iff)
  then have req: "tempRequirement order = Own \<lparr>score = Fin 20, label = [3611, 3585, 3605, 3636]\<rparr>"
    by (simp add: tempRequirement_def get_property_def tempRequirements_def)
  have snack: "map_of tempRequirements ''snack'' = Some \<lparr>score = Fin 20, label = [3611, 3585, 3605, 3636]\<rparr>"
    by (simp add: tempRequirements_def)
  obtain t where t: "calculateOrderPriority e order =
     Inr \<lparr>scored_order_id = order_id order,
          priority_score = totalScore e order,
          priority_class = classifyPriority (totalScore e order),
          breakdown = breakdown_of e order,
          highest_temp_requirement = Some (label t),
          total_value = totalValue order,
          earliest_expiration = minExpiration order,
          minutes_until_deadline = Math_round (minutesRemaining e order)\<rparr>"
     "tempRequirement order = Own t"
    using calculateOrderPriority_returns [OF assms(3), of e] by blast
  from t(2) req have "t = \<lparr>score = Fin 20, label = [3611, 3585, 3605, 3636]\<rparr>" by simp
  with t(1) snack have "\<exists>r t. calculateOrderPriority e order = Inr r
                  \<and> map_of tempRequirements ''snack'' = Some t
                  \<and> highest_temp_requirement r = Some (label t)"
    by simp
  with scores maxT show ?thesis by blast
qed


text \<open>C8 at an order of two products with the categories toys and constructor.\<close>

theorem C8_unrecognized_categories_witness:
  "products \<lparr>order_id = ''ORD902'', customer_name = ''Nida'', customer_address = ''SC 210'',
       customer_priority = ''high'', order_time = Some 0, delivery_window_end = Some 2700000,
       products = [\<lparr>product_id = ''P020'', name = ''robot'', category = ''toys'',
                    price = Fin 250, quantity = Fin 1, expiration_hours = Fin 8760\<rparr>,
                   \<lparr>product_id = ''P021'', name = ''bricks'', category = ''constructor'',
                    price = Fin 90, quantity = Fin 2, expiration_hours = Fin 8760\<rparr>]\<rparr> \<noteq> []
   \<and> length (products \<lparr>order_id = ''ORD902'', customer_name = ''Nida'', customer_address = ''SC 210'',
       customer_priority = ''high'', order_time = Some 0, delivery_window_end = Some 2700000,
       products = [\<lparr>product_id = ''P020'', name = ''robot'', category = ''toys'',
                    price = Fin 250, quantity = Fin 1, expiration_hours = Fin 8760\<rparr>,
                   \<lparr>product_id = ''P021'', name = ''bricks'', category = ''constructor'',
                    price = Fin 90, quantity = Fin 2, expiration_hours = Fin 8760\<rparr>]\<rparr>) \<le> max_arguments
   \<and> ''toys'' \<notin> {''hot_food'', ''frozen'', ''chilled'', ''beverage'', ''snack'', ''daily_goods'', ''medicine''}
   \<and> ''constructor'' \<notin> {''hot_food'', ''frozen'', ''chilled'', ''beverage'', ''snack'', ''daily_goods'', ''medicine''}
   \<and> tempScores \<lparr>order_id = ''ORD902'', customer_name = ''Nida'', customer_address = ''SC 210'',
       customer_priority = ''high'', order_time = Some 0, delivery_window_end = Some 2700000,
       products = [\<lparr>product_id = ''P020'', name = ''robot'', category = ''toys'',
                    price = Fin 250, quantity = Fin 1, expiration_hours = Fin 8760\<rparr>,
                   \<lparr>product_id = ''P021'', name = ''bricks'', category = ''constructor'',
                    price = Fin 90, quantity = Fin 2, expiration_hours = Fin 8760\<rparr>]\<rparr>
       = [Fin 20, Fin 20]
   \<and> (\<exists>r. calculateOrderPriority \<lparr>clock = 0\<rparr>
            \<lparr>order_id = ''ORD902'', customer_name = ''Nida'', customer_address = ''SC 210'',
       customer_priority = ''high'', order_time = Some 0, delivery_window_end = Some 2700000,
       products = [\<lparr>product_id = ''P020'', name = ''robot'', category = ''toys'',
                    price = Fin 250, quantity = Fin 1, expiration_hours = Fin 8760\<rparr>,
                   \<lparr>product_id = ''P021'', name = ''bricks'', category = ''constructor'',
                    price = Fin 90, quantity = Fin 2, expiration_hours = Fin 8760\<rparr>]\<rparr> = Inr r
          \<and> highest_temp_requirement r = Some [3611, 3585, 3605, 3636])"
proof -
  define order where "order = \<lparr>order_id = ''ORD902'', customer_name = ''Nida'', customer_address = ''SC 210'',
       customer_priority = ''high'', order_time = Some 0, delivery_window_end = Some 2700000,
       products = [\<lparr>product_id = ''P020'', name = ''robot'', category = ''toys'',
                    price = Fin 250, quantity = Fin 1, expiration_hours = Fin 8760\<rparr>,
                   \<lparr>product_id = ''P021'', name = ''bricks'', category = ''constructor'',
                    price = Fin 90, quantity = Fin 2, expiration_hours = Fin 8760\<rparr>]\<rparr>"
  have nonempty: "products order \<noteq> []" by (simp add: order_def)
  have unknown: "\<forall>p\<in>set (products order). category p \<notin>
           {''hot_food'', ''frozen'', ''chilled'', ''beverage'', ''snack'', ''daily_goods'', ''medicine''}"
    by (simp add: order_def)
  have within: "length (products order) \<le> max_arguments"
    by (simp add: order_def max_arguments_def)
  have snack: "map_of tempRequirements ''snack'' = Some t \<Longrightarrow> label t = [3611, 3585, 3605, 3636]" for t
    by (auto simp add: tempRequirements_def)
  from C8_unrecognized_categories [OF nonempty unknown within, of "\<lparr>clock = 0\<rparr>"] snack
  have "tempScores order = [Fin 20, Fin 20]
     \<and> (\<exists>r. calculateOrderPriority \<lparr>clock = 0\<rparr> order = Inr r
          \<and> highest_temp_requirement r = Some [3611, 3585, 3605, 3636])"
    by (auto simp add: order_def)
  with within show ?thesis
    unfolding order_def by simp
qed

text \<open>
  C8, as the claim states it, fails. An order of 130000 products of the category toys is
  not empty and has no recognized category; spreading its 130000 temperature scores into
  \<^verbatim>\<open>Math.max\<close> throws a RangeError, and the endpoint answers the batch that holds it
  with the status 500.
\<close>

theorem C8_counterexample:
  "length (products
     \<lparr>order_id = ''ORD903'', customer_name = ''Nida'', customer_address = ''SC 210'',
       customer_priority = ''high'', order_time = Some 0, delivery_window_end = Some 2700000,
       products = replicate 130000
         \<lparr>product_id = ''P020'', name = ''robot'', category = ''toys'',
          price = Fin 250, quantity = Fin 1, expiration_hours = Fin 8760\<rparr>\<rparr>) = 130000
   \<and> category ` set (products
     \<lparr>order_id = ''ORD903'', customer_name = ''Nida'', customer_address = ''SC 210'',
       customer_priority = ''high'', order_time = Some 0, delivery_window_end = Some 2700000,
       products = replicate 130000
         \<lparr>product_id = ''P020'', name = ''robot'', category = ''toys'',
          price = Fin 250, quantity = Fin 1, expiration_hours = Fin 8760\<rparr>\<rparr>) = {''toys''}
   \<and> ''toys'' \<notin> {''hot_food'', ''frozen'', ''chilled'', ''beverage'', ''snack'', ''daily_goods'', ''medicine''}
   \<and> calculateOrderPriority \<lparr>clock = 0\<rparr> 
     \<lparr>order_id = ''ORD903'', customer_name = ''Nida'', customer_address = ''SC 210'',
       customer_priority = ''high'', order_time = Some 0, delivery_window_end = Some 2700000,
       products = replicate 130000
         \<lparr>product_id = ''P020'', name = ''robot'', category = ''toys'',
          price = Fin 250, quantity = Fin 1, expiration_hours = Fin 8760\<rparr>\<rparr> = Inl RangeError
   \<and> POST \<lparr>clock = 0\<rparr> (Array [
     \<lparr>order_id = ''ORD903'', customer_name = ''Nida'', customer_address = ''SC 210'',
       customer_priority = ''high'', order_time = Some 0, delivery_window_end = Some 2700000,
       products = replicate 130000
         \<lparr>product_id = ''P020'', name = ''robot'', category = ''toys'',
          price = Fin 250, quantity = Fin 1, expiration_hours = Fin 8760\<rparr>\<rparr>]) = ErrorResponse ''Internal server error'' 500"
proof -
  define order where "order =
     \<lparr>order_id = ''ORD903'', customer_name = ''Nida'', customer_address = ''SC 210'',
       customer_priority = ''high'', order_time = Some 0, delivery_window_end = Some 2700000,
       products = replicate 130000
         \<lparr>product_id = ''P020'', name = ''robot'', category = ''toys'',
          price = Fin 250, quantity = Fin 1, expiration_hours = Fin 8760\<rparr>\<rparr>"
  have len: "length (products order) = 130000"
    by (simp add: order_def)
  have cats: "category ` set (products order) = {''toys''}"
    by (simp add: order_def)
  have toys: "''toys'' \<notin> {''hot_food'', ''frozen'', ''chilled'', ''beverage'', ''snack'', ''daily_goods'', ''medicine''}"
    by simp
  have "max_arguments < length (products order)"
    by (simp only: len max_arguments_def)
  then have throws: "calculateOrderPriority \<lparr>clock = 0\<rparr> order = Inl RangeError"
    by (rule calculateOrderPriority_throws)
  then have "POST \<lparr>clock = 0\<rparr> (Array [order]) = ErrorResponse ''Internal server error'' 500"
    by (simp add: POST_def)
  with len cats toys throws show ?thesis
    unfolding order_def by (intro conjI)
qed

section \<open>An inherited property name as customer priority\<close>

text \<open>
  C2 requires a score between 0 and 100 of every order with at least one product. The
  order \<lparr>order_id = ''ORD900'', customer_name = ''Somchai'', customer_address = ''Eton 501'',
      customer_priority = ''constructor'', order_time = Some 0, delivery_window_end = Some 1500000,
      products = [\<lparr>product_id = ''P001'', name = ''rice box'', category = ''hot_food'',
                   price = Fin 65, quantity = Fin 1, expiration_hours = Fin 3\<rparr>]\<rparr> has one product and the customer priority \<^verbatim>\<open>constructor\<close>, a property
  the score table inherits: the lookup gives a function, \<^verbatim>\<open>|| 50\<close> keeps it, its
  product with the weight is NaN, and so is the priority score, which is neither at least
  0 nor at most 100.
\<close>

theorem C2_inherited_customer_priority:
  "\<exists>r. calculateOrderPriority \<lparr>clock = 0\<rparr>
     \<lparr>order_id = ''ORD900'', customer_name = ''Somchai'', customer_address = ''Eton 501'',
      customer_priority = ''constructor'', order_time = Some 0, delivery_window_end = Some 1500000,
      products = [\<lparr>product_id = ''P001'', name = ''rice box'', category = ''hot_food'',
                   price = Fin 65, quantity = Fin 1, expiration_hours = Fin 3\<rparr>]\<rparr> = Inr r
     \<and> customerScore
     \<lparr>order_id = ''ORD900'', customer_name = ''Somchai'', customer_address = ''Eton 501'',
      customer_priority = ''constructor'', order_time = Some 0, delivery_window_end = Some 1500000,
      products = [\<lparr>product_id = ''P001'', name = ''rice box'', category = ''hot_food'',
                   price = Fin 65, quantity = Fin 1, expiration_hours = Fin 3\<rparr>]\<rparr> = Object
     \<and> priority_score r = NaN
     \<and> \<not> js_ge (priority_score r) (Fin 0) \<and> \<not> js_le (priority_score r) (Fin 100)"
proof -
  have "customerScore
     \<lparr>order_id = ''ORD900'', customer_name = ''Somchai'', customer_address = ''Eton 501'',
      customer_priority = ''constructor'', order_time = Some 0, delivery_window_end = Some 1500000,
      products = [\<lparr>product_id = ''P001'', name = ''rice box'', category = ''hot_food'',
                   price = Fin 65, quantity = Fin 1, expiration_hours = Fin 3\<rparr>]\<rparr> = Object"
    by (simp add: customerScore_def get_property_def customerPriorityScores_def
          objectPrototypeKeys_def)
  then show ?thesis
    by (simp add: eval_constructor js_ge_def)
qed

text \<open>
  C5 requires of every order with no product that the calculator returns and that the
  score is not NaN. The order \<lparr>order_id = ''ORD901'', customer_name = ''Somchai'', customer_address = ''Eton 501'',
      customer_priority = ''constructor'', order_time = Some 0, delivery_window_end = Some 1500000,
      products = []\<rparr> has no product and the customer priority
  \<^verbatim>\<open>constructor\<close>: the calculator returns, and the priority score is NaN.
\<close>

theorem C5_empty_order_inherited_customer_priority:
  "\<exists>r. calculateOrderPriority \<lparr>clock = 0\<rparr>
     \<lparr>order_id = ''ORD901'', customer_name = ''Somchai'', customer_address = ''Eton 501'',
      customer_priority = ''constructor'', order_time = Some 0, delivery_window_end = Some 1500000,
      products = []\<rparr> = Inr r
     \<and> products
     \<lparr>order_id = ''ORD901'', customer_name = ''Somchai'', customer_address = ''Eton 501'',
      customer_priority = ''constructor'', order_time = Some 0, delivery_window_end = Some 1500000,
      products = []\<rparr> = []
     \<and> priority_score r = NaN"
  by (simp add: eval_empty_constructor)

section \<open>Sorting and ranking\<close>

lemma length_insert_sorted: "length (insert_sorted f x ys) = Suc (length ys)"
  by (induction ys) simp_all

lemma set_insert_sorted: "set (insert_sorted f x ys) = insert x (set ys)"
  by (induction ys) auto

lemma length_Array_sort: "length (Array_sort f xs) = length xs"
  by (induction xs) (simp_all add: Array_sort_def length_insert_sorted)

lemma set_Array_sort: "set (Array_sort f xs) = set xs"
  by (induction xs) (simp_all add: Array_sort_def set_insert_sorted)

text \<open>On scores that are not NaN the comparator is positive exactly when the first is the smaller.\<close>

lemma by_priority_score_positive:
  assumes "priority_score x \<noteq> NaN" and "priority_score y \<noteq> NaN"
  shows "js_gt (SortCompare by_priority_score x y) (Fin 0)
         \<longleftrightarrow> js_lt (priority_score x) (priority_score y)"
  using assms
  by (cases "priority_score x"; cases "priority_score y")
     (simp_all add: SortCompare_def by_priority_score_def js_sub_def js_gt_def)

text \<open>Whatever the scores, a positive comparator means they differ.\<close>

lemma by_priority_score_positive_differ:
  assumes "js_gt (SortCompare by_priority_score x y) (Fin 0)"
  shows "priority_score x \<noteq> priority_score y"
  using assms
  by (cases "priority_score x"; cases "priority_score y")
     (simp_all add: SortCompare_def by_priority_score_def js_sub_def js_gt_def)

lemma js_lt_imp_le: "js_lt a b \<Longrightarrow> js_le a b"
  by (cases a; cases b) simp_all

lemma js_not_lt_imp_ge: "a \<noteq> NaN \<Longrightarrow> b \<noteq> NaN \<Longrightarrow> \<not> js_lt a b \<Longrightarrow> js_le b a"
  by (cases a; cases b) simp_all

lemma js_le_trans: "js_le a b \<Longrightarrow> js_le b c \<Longrightarrow> js_le a c"
  by (cases a; cases b; cases c) simp_all

lemma sorted_insert_sorted:
  assumes "sorted_wrt (\<lambda>a b. js_ge (priority_score a) (priority_score b)) ys"
    and "priority_score x \<noteq> NaN" and "\<forall>y\<in>set ys. priority_score y \<noteq> NaN"
  shows "sorted_wrt (\<lambda>a b. js_ge (priority_score a) (priority_score b))
           (insert_sorted by_priority_score x ys)"
  using assms
proof (induction ys)
  case Nil
  then show ?case by simp
next
  case (Cons y ys)
  have ynan: "priority_score y \<noteq> NaN" using Cons.prems(3) by simp
  show ?case
  proof (cases "js_gt (SortCompare by_priority_score x y) (Fin 0)")
    case True
    then have lt: "js_lt (priority_score x) (priority_score y)"
      using by_priority_score_positive [OF Cons.prems(2) ynan] by simp
    have "sorted_wrt (\<lambda>a b. js_ge (priority_score a) (priority_score b))
           (insert_sorted by_priority_score x ys)"
      using Cons.IH Cons.prems by simp
    moreover have "\<forall>z\<in>set (insert_sorted by_priority_score x ys).
        js_ge (priority_score y) (priority_score z)"
      using Cons.prems(1) js_lt_imp_le [OF lt] by (auto simp add: set_insert_sorted js_ge_def)
    ultimately show ?thesis using True by simp
  next
    case False
    then have "\<not> js_lt (priority_score x) (priority_score y)"
      using by_priority_score_positive [OF Cons.prems(2) ynan] by simp
    then have ge: "js_le (priority_score y) (priority_score x)"
      using js_not_lt_imp_ge [OF Cons.prems(2) ynan] by simp
    have "\<forall>z\<in>set ys. js_le (priority_score z) (priority_score x)"
      using Cons.prems(1) ge js_le_trans by (auto simp add: js_ge_def)
    then show ?thesis using False ge Cons.prems(1) by (simp add: js_ge_def)
  qed
qed

lemma sorted_Array_sort:
  assumes "\<forall>x\<in>set xs. priority_score x \<noteq> NaN"
  shows "sorted_wrt (\<lambda>a b. js_ge (priority_score a) (priority_score b))
           (Array_sort by_priority_score xs)"
  using assms
proof (induction xs)
  case Nil
  then show ?case by (simp add: Array_sort_def)
next
  case (Cons x xs)
  have "sorted_wrt (\<lambda>a b. js_ge (priority_score a) (priority_score b))
          (insert_sorted by_priority_score x (Array_sort by_priority_score xs))"
    using Cons by (intro sorted_insert_sorted) (simp_all add: set_Array_sort)
  then show ?case by (simp add: Array_sort_def)
qed

text \<open>Stability: the results of any one score keep the order they had in the input.\<close>

lemma filter_insert_sorted:
  "filter (\<lambda>r. priority_score r = s) (insert_sorted by_priority_score x ys)
   = filter (\<lambda>r. priority_score r = s) (x # ys)"
proof (induction ys)
  case Nil
  then show ?case by simp
next
  case (Cons y ys)
  show ?case
  proof (cases "js_gt (SortCompare by_priority_score x y) (Fin 0)")
    case True
    from by_priority_score_positive_differ [OF True]
    have "\<not> (priority_score x = s \<and> priority_score y = s)" by auto
    then show ?thesis using True Cons.IH by auto
  next
    case False
    then show ?thesis by simp
  qed
qed

lemma filter_Array_sort:
  "filter (\<lambda>r. priority_score r = s) (Array_sort by_priority_score xs)
   = filter (\<lambda>r. priority_score r = s) xs"
proof (induction xs)
  case Nil
  then show ?case by (simp add: Array_sort_def)
next
  case (Cons x xs)
  have "Array_sort by_priority_score (x # xs)
      = insert_sorted by_priority_score x (Array_sort by_priority_score xs)"
    by (simp add: Array_sort_def)
  then show ?case using Cons.IH by (simp add: filter_insert_sorted)
qed

text \<open>The ranks handed out are 1, 2, ..., N, and the ranked results are the sorted ones.\<close>

lemma truncate_add_delivery_order: "ScoredOrder.truncate (add_delivery_order r i) = r"
  by (simp add: ScoredOrder.truncate_def add_delivery_order_def)

lemma rank_add_delivery_order: "suggested_delivery_order (add_delivery_order r i) = Suc i"
  by (simp add: add_delivery_order_def)

lemma score_add_delivery_order: "priority_score (add_delivery_order r i) = priority_score r"
  by (simp add: add_delivery_order_def)

lemma map_fst_zip_upt: "map (\<lambda>p. f (fst p)) (zip ys [0 ..< length ys]) = map f ys"
  by (rule nth_equalityI) simp_all

lemma map_snd_zip_upt: "map (\<lambda>p. f (snd p)) (zip ys [0 ..< length ys]) = map f [0 ..< length ys]"
  by (rule nth_equalityI) simp_all

lemma forEach_rank_ranks:
  "map suggested_delivery_order (forEach_rank ys) = [1 ..< Suc (length ys)]"
proof -
  have "map suggested_delivery_order (forEach_rank ys)
      = map (\<lambda>p. Suc (snd p)) (zip ys [0 ..< length ys])"
    by (simp add: forEach_rank_def rank_add_delivery_order case_prod_beta comp_def)
  also have "\<dots> = map Suc [0 ..< length ys]" by (rule map_snd_zip_upt)
  also have "\<dots> = [1 ..< Suc (length ys)]" by (simp add: map_Suc_upt)
  finally show ?thesis .
qed

lemma forEach_rank_truncate: "map ScoredOrder.truncate (forEach_rank ys) = ys"
proof -
  have "map ScoredOrder.truncate (forEach_rank ys)
      = map (\<lambda>p. id (fst p)) (zip ys [0 ..< length ys])"
    by (simp add: forEach_rank_def truncate_add_delivery_order case_prod_beta comp_def)
  also have "\<dots> = map id ys" by (rule map_fst_zip_upt)
  finally show ?thesis by simp
qed

lemma forEach_rank_scores: "map priority_score (forEach_rank ys) = map priority_score ys"
proof -
  have "map priority_score (forEach_rank ys)
      = map (\<lambda>p. priority_score (fst p)) (zip ys [0 ..< length ys])"
    by (simp add: forEach_rank_def score_add_delivery_order case_prod_beta comp_def)
  also have "\<dots> = map priority_score ys" by (rule map_fst_zip_upt)
  finally show ?thesis .
qed

lemma map_calculate_returns:
  assumes "\<forall>order\<in>set os. length (products order) \<le> max_arguments"
  shows "\<exists>results. map_calculate e os = Inr results
     \<and> list_all2 (\<lambda>order r. calculateOrderPriority e order = Inr r) os results"
  using assms
proof (induction os)
  case Nil
  then show ?case by simp
next
  case (Cons order os)
  have "length (products order) \<le> max_arguments" using Cons.prems by simp
  then obtain r where r: "calculateOrderPriority e order = Inr r"
    using calculateOrderPriority_returns [of order e] by blast
  have "\<forall>order\<in>set os. length (products order) \<le> max_arguments" using Cons.prems by simp
  from Cons.IH [OF this] obtain results where "map_calculate e os = Inr results"
    "list_all2 (\<lambda>order r. calculateOrderPriority e order = Inr r) os results" by blast
  with r show ?case by simp
qed

lemma priority_score_not_NaN:
  assumes "customer_priority order \<notin> set objectPrototypeKeys"
    and "calculateOrderPriority e order = Inr r"
  shows "priority_score r \<noteq> NaN"
proof (cases "products order = []")
  case True
  from priority_score_empty [OF True assms(1), of e] assms(2) show ?thesis by auto
next
  case False
  from priority_score_in_range [OF False assms(1) calculateOrderPriority_within_limit [OF assms(2)],
      of e] assms(2)
  show ?thesis by auto
qed

lemma POST_unfold:
  assumes "map_calculate e os = Inr results"
  shows "\<exists>b. POST e (Array os) = OkResponse b
     \<and> orders b = forEach_rank (Array_sort by_priority_score results)
     \<and> total_orders b = length results"
  using assms
  by (simp add: POST_def Let_def forEach_rank_def length_Array_sort)

text \<open>
  The ranking of a batch in which no order's \<open>customer_priority\<close> names an inherited
  property and no order has more products than one call takes arguments: the handler
  answers with the results ranked 1 to N, in non-increasing order of \<open>priority_score\<close>,
  the results of equal score in their input order.
\<close>

lemma POST_ranking:
  assumes "\<forall>order\<in>set os. customer_priority order \<notin> set objectPrototypeKeys"
    and "\<forall>order\<in>set os. length (products order) \<le> max_arguments"
  shows "\<exists>results b. map_calculate e os = Inr results
     \<and> list_all2 (\<lambda>order r. calculateOrderPriority e order = Inr r) os results
     \<and> POST e (Array os) = OkResponse b
     \<and> map suggested_delivery_order (orders b) = [1 ..< Suc (length os)]
     \<and> sorted_wrt (\<lambda>a b. js_ge (priority_score a) (priority_score b)) (orders b)
     \<and> (\<forall>s. filter (\<lambda>r. priority_score r = s) (map ScoredOrder.truncate (orders b))
             = filter (\<lambda>r. priority_score r = s) results)"
proof -
  obtain results where results: "map_calculate e os = Inr results"
    "list_all2 (\<lambda>order r. calculateOrderPriority e order = Inr r) os results"
    using map_calculate_returns [OF assms(2)] by blast
  obtain b where b: "POST e (Array os) = OkResponse b"
    "orders b = forEach_rank (Array_sort by_priority_score results)"
    using POST_unfold [OF results(1)] by blast
  have len: "length results = length os"
    using results(2) by (simp add: list_all2_lengthD)
  have "\<forall>r\<in>set results. priority_score r \<noteq> NaN"
  proof
    fix r assume "r \<in> set results"
    then obtain i where i: "i < length results" "results ! i = r"
      by (auto simp add: in_set_conv_nth)
    then have "calculateOrderPriority e (os ! i) = Inr r"
      using results(2) by (auto simp add: list_all2_conv_all_nth)
    moreover have "customer_priority (os ! i) \<notin> set objectPrototypeKeys"
      using assms(1) i(1) len by simp
    ultimately show "priority_score r \<noteq> NaN" using priority_score_not_NaN by blast
  qed
  then have "sorted_wrt (\<lambda>a b. js_ge (priority_score a) (priority_score b))
      (Array_sort by_priority_score results)"
    by (rule sorted_Array_sort)
  then have "sorted_wrt js_ge (map priority_score (Array_sort by_priority_score results))"
    by (simp add: sorted_wrt_map)
  then have "sorted_wrt js_ge (map priority_score (orders b))"
    by (simp only: b(2) forEach_rank_scores)
  then have sorted: "sorted_wrt (\<lambda>a b. js_ge (priority_score a) (priority_score b)) (orders b)"
    by (simp add: sorted_wrt_map)
  have ranks: "map suggested_delivery_order (orders b) = [1 ..< Suc (length os)]"
    by (simp only: b(2) forEach_rank_ranks length_Array_sort len)
  have stable: "\<forall>s. filter (\<lambda>r. priority_score r = s) (map ScoredOrder.truncate (orders b))
             = filter (\<lambda>r. priority_score r = s) results"
    by (simp only: b(2) forEach_rank_truncate filter_Array_sort) simp
  from results b(1) ranks sorted stable show ?thesis by blast
qed

lemma by_priority_score_or_0_eq:
  assumes "priority_score a \<noteq> NaN" and "priority_score b \<noteq> NaN"
  shows "by_priority_score_or_0 a b = by_priority_score a b"
proof -
  have "or_default (Some s) (Fin 0) = s" if "s \<noteq> NaN" for s
    using that by (simp add: truthy_def)
  then show ?thesis
    using assms by (simp add: by_priority_score_or_0_def by_priority_score_def)
qed

lemma insert_sorted_cong:
  assumes "\<forall>y\<in>set ys. f x y = g x y"
  shows "insert_sorted f x ys = insert_sorted g x ys"
  using assms by (induction ys) (simp_all add: SortCompare_def)

lemma Array_sort_cong:
  assumes "\<forall>x\<in>set xs. \<forall>y\<in>set xs. f x y = g x y"
  shows "Array_sort f xs = Array_sort g xs"
  using assms
proof (induction xs)
  case Nil
  then show ?case by (simp add: Array_sort_def)
next
  case (Cons x xs)
  have IH: "Array_sort f xs = Array_sort g xs" using Cons by simp
  have "insert_sorted f x (Array_sort g xs) = insert_sorted g x (Array_sort g xs)"
    using Cons.prems by (intro insert_sorted_cong) (simp add: set_Array_sort)
  then show ?case by (simp add: Array_sort_def IH [unfolded Array_sort_def])
qed

text \<open>
  On results without a NaN score \<^verbatim>\<open>|| 0\<close> changes nothing, and the dashboard ranks
  as the endpoint does.
\<close>

lemma dashboard_rank_eq:
  assumes "\<forall>r\<in>set results. priority_score r \<noteq> NaN"
  shows "dashboard_rank results = forEach_rank (Array_sort by_priority_score results)"
proof -
  have "Array_sort by_priority_score_or_0 results = Array_sort by_priority_score results"
    using assms by (intro Array_sort_cong) (simp add: by_priority_score_or_0_eq)
  then show ?thesis by (simp add: dashboard_rank_def)
qed

lemma dashboard_ranking:
  assumes "\<forall>r\<in>set results. priority_score r \<noteq> NaN"
  shows "map suggested_delivery_order (dashboard_rank results) = [1 ..< Suc (length results)]
     \<and> sorted_wrt (\<lambda>a b. js_ge (priority_score a) (priority_score b)) (dashboard_rank results)
     \<and> (\<forall>s. filter (\<lambda>r. priority_score r = s) (map ScoredOrder.truncate (dashboard_rank results))
             = filter (\<lambda>r. priority_score r = s) results)"
proof -
  have eq: "dashboard_rank results = forEach_rank (Array_sort by_priority_score results)"
    using assms by (rule dashboard_rank_eq)
  have "sorted_wrt (\<lambda>a b. js_ge (priority_score a) (priority_score b))
      (Array_sort by_priority_score results)"
    using assms by (rule sorted_Array_sort)
  then have "sorted_wrt js_ge (map priority_score (Array_sort by_priority_score results))"
    by (simp add: sorted_wrt_map)
  then have "sorted_wrt js_ge (map priority_score (dashboard_rank results))"
    by (simp only: eq forEach_rank_scores)
  then have sorted: "sorted_wrt (\<lambda>a b. js_ge (priority_score a) (priority_score b))
      (dashboard_rank results)"
    by (simp add: sorted_wrt_map)
  have ranks: "map suggested_delivery_order (dashboard_rank results) = [1 ..< Suc (length results)]"
    by (simp only: eq forEach_rank_ranks length_Array_sort)
  have stable: "\<forall>s. filter (\<lambda>r. priority_score r = s) (map ScoredOrder.truncate (dashboard_rank results))
             = filter (\<lambda>r. priority_score r = s) results"
    by (simp only: eq forEach_rank_truncate filter_Array_sort) simp
  from ranks sorted stable show ?thesis by (intro conjI)
qed

lemma eval_POST_constructor:
  "\<exists>b. POST \<lparr>clock = 0\<rparr> (Array
     [\<lparr>order_id = ''ORD900'', customer_name = ''Somchai'', customer_address = ''Eton 501'',
       customer_priority = ''constructor'', order_time = Some 0, delivery_window_end = Some 1500000,
       products = [\<lparr>product_id = ''P001'', name = ''rice box'', category = ''hot_food'',
                    price = Fin 65, quantity = Fin 1, expiration_hours = Fin 3\<rparr>]\<rparr>,
      \<lparr>order_id = ''ORD001'', customer_name = ''Somchai'', customer_address = ''Eton 501'',
       customer_priority = ''urgent'', order_time = Some 0, delivery_window_end = Some 1500000,
       products = [\<lparr>product_id = ''P001'', name = ''rice box'', category = ''hot_food'',
                    price = Fin 65, quantity = Fin 1, expiration_hours = Fin 3\<rparr>,
                   \<lparr>product_id = ''P002'', name = ''water'', category = ''beverage'',
                    price = Fin 10, quantity = Fin 2, expiration_hours = Fin 8760\<rparr>]\<rparr>])
     = OkResponse b
   \<and> map (\<lambda>r. (scored_order_id r, priority_score r, suggested_delivery_order r)) (orders b)
       = [(''ORD900'', NaN, 1), (''ORD001'', Fin 89, 2)]"
  by (simp add: POST_def Let_def eval_constructor eval_ORD001 Array_sort_def SortCompare_def
        by_priority_score_def js_sub_def js_gt_def forEach_rank_def add_delivery_order_def)

text \<open>
  C3 requires the ranking of every batch to be in non-increasing order of priority score.
  In the batch of ORD900, whose score is NaN, and ORD001, whose score is 89, the comparator
  gives NaN, which the sort takes for equal: ORD900 keeps rank 1 and ORD001 gets rank 2,
  and NaN is not greater than or equal to 89.
\<close>

theorem C3_rank_with_NaN_score:
  "\<exists>b. POST \<lparr>clock = 0\<rparr> (Array
     [\<lparr>order_id = ''ORD900'', customer_name = ''Somchai'', customer_address = ''Eton 501'',
       customer_priority = ''constructor'', order_time = Some 0, delivery_window_end = Some 1500000,
       products = [\<lparr>product_id = ''P001'', name = ''rice box'', category = ''hot_food'',
                    price = Fin 65, quantity = Fin 1, expiration_hours = Fin 3\<rparr>]\<rparr>,
      \<lparr>order_id = ''ORD001'', customer_name = ''Somchai'', customer_address = ''Eton 501'',
       customer_priority = ''urgent'', order_time = Some 0, delivery_window_end = Some 1500000,
       products = [\<lparr>product_id = ''P001'', name = ''rice box'', category = ''hot_food'',
                    price = Fin 65, quantity = Fin 1, expiration_hours = Fin 3\<rparr>,
                   \<lparr>product_id = ''P002'', name = ''water'', category = ''beverage'',
                    price = Fin 10, quantity = Fin 2, expiration_hours = Fin 8760\<rparr>]\<rparr>])
     = OkResponse b
   \<and> map (\<lambda>r. (scored_order_id r, priority_score r, suggested_delivery_order r)) (orders b)
       = [(''ORD900'', NaN, 1), (''ORD001'', Fin 89, 2)]
   \<and> \<not> sorted_wrt (\<lambda>a b. js_ge (priority_score a) (priority_score b)) (orders b)"
  (is "\<exists>b. ?response b \<and> ?ranked b \<and> \<not> ?sorted b")
proof -
  from eval_POST_constructor obtain b where b: "?response b" "?ranked b"
    by (elim exE conjE)
  from b(2) have "map priority_score (orders b) = [NaN, Fin 89]"
    by (auto simp add: map_eq_Cons_conv)
  then have "\<not> sorted_wrt js_ge (map priority_score (orders b))"
    by (simp add: js_ge_def)
  then have "\<not> ?sorted b"
    by (simp add: sorted_wrt_map)
  with b show ?thesis
    by (intro exI [of _ b] conjI)
qed

section \<open>The empty batch\<close>

text \<open>
  C10. A request whose \<open>orders\<close> is the empty array passes the array check; the
  response is the success body with \<open>total_orders = 0\<close>, and its \<open>avg_score\<close> is
  the quotient of the empty sum 0 by the length 0, which is NaN.
\<close>

theorem C10_empty_batch:
  "POST e (Array []) =
     OkResponse \<lparr>success = True, total_orders = 0, orders = [],
        summary = \<lparr>critical = 0, high = 0, medium = 0, low = 0,
                    avg_score = js_div (Fin 0) (Fin 0)\<rparr>\<rparr>
   \<and> js_div (Fin 0) (Fin 0) = NaN"
  by (simp add: POST_def Array_sort_def forEach_rank_def count_class_def inf_of_sign_def)

end
